theory Spec2Isabelle
  imports Complex_Main
begin

section \<open>The analytic Blandford-McKee solution of examples/bmk\_oned.py\<close>

text \<open>
  The script evaluates closed formulas in double precision. The embedding reads every
  float as a real number: rounding, overflow, \<open>inf\<close> and \<open>nan\<close> are not represented.
  Where the script would continue with a complex number, an \<open>inf\<close> or a \<open>nan\<close>, the
  embedding stops with the outcome \<open>Unmodelled\<close>; where Python raises, it stops with
  the exception raised. Python's \<open>**\<close> raises OverflowError when its result exceeds
  the largest double (\<open>float_max\<close> below): as every overflow, this is not represented.
  The velocity dataset of a checkpoint is written and never read again: an entry that
  is not a finite number is recorded as \<open>None\<close> and the run continues.
\<close>

subsection \<open>Python values and exceptions\<close>

datatype pyerror = ZeroDivisionError | IndexError | ValueError | TypeError

text \<open>A Python number as the formulas produce it: a float, or a complex number.\<close>

datatype pynum = PyFloat real | PyComplex complex

text \<open>The outcome of a piece of the script.\<close>

datatype 'a res = Ok 'a | Raise pyerror | Unmodelled

fun to_complex :: "pynum \<Rightarrow> complex" where
  "to_complex (PyFloat x) = of_real x"
| "to_complex (PyComplex z) = z"

text \<open>The largest double, \<open>sys.float_info.max\<close>.\<close>

definition float_max :: real where
  "float_max = 2 ^ 1024 - 2 ^ 971"

text \<open>
  \<open>x ** y\<close> on Python floats: \<open>0.0\<close> to a negative power raises, and a negative base
  with a fractional exponent gives the complex number of modulus \<open>|x| ** y\<close> and
  argument \<open>pi * y\<close>. The OverflowError of a result beyond \<open>float_max\<close> is not
  represented: the value is the real power.
\<close>

definition float_pow :: "real \<Rightarrow> real \<Rightarrow> pyerror + pynum" where
  "float_pow x y =
     (if y = 0 then Inr (PyFloat 1)
      else if x = 0 then (if y < 0 then Inl ZeroDivisionError else Inr (PyFloat 0))
      else if x < 0 \<and> y \<notin> \<int> then Inr (PyComplex (of_real (\<bar>x\<bar> powr y) * cis (pi * y)))
      else if x < 0 then Inr (PyFloat (x powi \<lfloor>y\<rfloor>))
      else Inr (PyFloat (x powr y)))"

text \<open>\<open>a * b\<close> and \<open>a / b\<close> on Python numbers (\<open>b\<close> a float).\<close>

fun py_mul :: "pynum \<Rightarrow> pynum \<Rightarrow> pynum" where
  "py_mul (PyFloat a) (PyFloat b) = PyFloat (a * b)"
| "py_mul a b = PyComplex (to_complex a * to_complex b)"

fun py_div_float :: "pynum \<Rightarrow> real \<Rightarrow> pyerror + pynum" where
  "py_div_float (PyFloat a) b = (if b = 0 then Inl ZeroDivisionError else Inr (PyFloat (a / b)))"
| "py_div_float (PyComplex z) b =
     (if b = 0 then Inl ZeroDivisionError else Inr (PyComplex (z / of_real b)))"

text \<open>Reading a Python result as a float of the embedding.\<close>

fun as_float :: "pyerror + pynum \<Rightarrow> real res" where
  "as_float (Inl e) = Raise e"
| "as_float (Inr (PyFloat x)) = Ok x"
| "as_float (Inr (PyComplex z)) = Unmodelled"

subsection \<open>ShockKinematics\<close>

text \<open>
  \<^verbatim>\<open>((17.0 - 4.0 * k) / 8.0 / np.pi)**0.5 * (l / t)**(3.0 / 2.0)\<close> on Python floats.
  The left factor is evaluated first; it never raises, its exponent being positive.
  The quotient \<open>l / t\<close> raises for \<open>t = 0\<close>.
\<close>

definition calc_shock_lorentz_gamma :: "real \<Rightarrow> real \<Rightarrow> real \<Rightarrow> pyerror + pynum" where
  "calc_shock_lorentz_gamma l t k =
     (case float_pow ((17 - 4 * k) / 8 / pi) (1 / 2) of
        Inl e \<Rightarrow> Inl e
      | Inr a \<Rightarrow>
          if t = 0 then Inl ZeroDivisionError
          else (case float_pow (l / t) (3 / 2) of
                  Inl e \<Rightarrow> Inl e
                | Inr b \<Rightarrow> Inr (py_mul a b)))"

definition calc_fluid_gamma_max :: "real \<Rightarrow> real \<Rightarrow> real \<Rightarrow> pyerror + pynum" where
  "calc_fluid_gamma_max l t k =
     (case calc_shock_lorentz_gamma l t k of
        Inl e \<Rightarrow> Inl e
      | Inr gamma_shock \<Rightarrow> py_div_float gamma_shock (2 powr (1 / 2)))"

text \<open>
  \<^verbatim>\<open>(1.0 + 2.0 * (m + 1)* gamma_shock**2)*(1.0 - r / t)\<close> for a float shock Lorentz
  factor; \<open>r\<close> is a float here and an array in the evolution loop (\<open>calc_chi_arr\<close>).
\<close>

definition calc_chi :: "real \<Rightarrow> real \<Rightarrow> real \<Rightarrow> real \<Rightarrow> real \<Rightarrow> real res" where
  "calc_chi l r t m k =
     (case as_float (calc_shock_lorentz_gamma l t k) of
        Ok gamma_shock \<Rightarrow> Ok ((1 + 2 * (m + 1) * gamma_shock ^ 2) * (1 - r / t))
      | Raise e \<Rightarrow> Raise e
      | Unmodelled \<Rightarrow> Unmodelled)"

definition calc_chi_arr :: "real \<Rightarrow> real list \<Rightarrow> real \<Rightarrow> real \<Rightarrow> real \<Rightarrow> real list res" where
  "calc_chi_arr l r t m k =
     (case as_float (calc_shock_lorentz_gamma l t k) of
        Ok gamma_shock \<Rightarrow> Ok (map (\<lambda>x. (1 + 2 * (m + 1) * gamma_shock ^ 2) * (1 - x / t)) r)
      | Raise e \<Rightarrow> Raise e
      | Unmodelled \<Rightarrow> Unmodelled)"

text \<open>
  The formulas of the shocked region, for one element of the array \<open>chi[smask]\<close>
  (numpy arithmetic: nothing raises; every masked \<open>chi\<close> is at least 1).
\<close>

definition calc_gamma_fluid :: "real \<Rightarrow> real \<Rightarrow> real" where
  "calc_gamma_fluid gamma_shock chi = gamma_shock / (2 * chi) powr (1 / 2)"

definition calc_rho :: "real \<Rightarrow> real \<Rightarrow> real \<Rightarrow> real \<Rightarrow> real" where
  "calc_rho gamma_shock chi rho0 k =
     2 * rho0 * gamma_shock ^ 2 * chi powr (- (7 - 2 * k) / (4 - k))
       / calc_gamma_fluid gamma_shock chi"

definition calc_pressure :: "real \<Rightarrow> real \<Rightarrow> real \<Rightarrow> real \<Rightarrow> real" where
  "calc_pressure gamma_shock chi rho0 k =
     (2 / 3) * rho0 * gamma_shock ^ 2 * chi powr (- (17 - 4 * k) / (12 - 3 * k))"

text \<open>
  The calls on the array \<open>chi[smask]\<close>. The exponents are quotients of Python floats,
  evaluated once per call whatever the mask holds: \<open>k = 4\<close> raises.
\<close>

definition calc_gamma_fluid_arr :: "real \<Rightarrow> real list \<Rightarrow> real list" where
  "calc_gamma_fluid_arr gamma_shock chi = map (calc_gamma_fluid gamma_shock) chi"

definition calc_rho_arr :: "real \<Rightarrow> real list \<Rightarrow> real \<Rightarrow> real \<Rightarrow> pyerror + real list" where
  "calc_rho_arr gamma_shock chi rho0 k =
     (if 4 - k = 0 then Inl ZeroDivisionError
      else Inr (map (\<lambda>c. calc_rho gamma_shock c rho0 k) chi))"

definition calc_pressure_arr :: "real \<Rightarrow> real list \<Rightarrow> real \<Rightarrow> real \<Rightarrow> pyerror + real list" where
  "calc_pressure_arr gamma_shock chi rho0 k =
     (if 12 - 3 * k = 0 then Inl ZeroDivisionError
      else Inr (map (\<lambda>c. calc_pressure gamma_shock c rho0 k) chi))"

text \<open>
  \<^verbatim>\<open>t * (1.0 - (2.0*(m + 1.0) * gamma_shock**2)**(-1))\<close> on Python floats: a zero base
  raises.
\<close>

definition calc_shock_radius :: "real \<Rightarrow> real \<Rightarrow> real \<Rightarrow> pyerror + real" where
  "calc_shock_radius gamma_shock t m =
     (if 2 * (m + 1) * gamma_shock ^ 2 = 0 then Inl ZeroDivisionError
      else Inr (t * (1 - inverse (2 * (m + 1) * gamma_shock ^ 2))))"

subsection \<open>numpy operations on arrays\<close>

text \<open>
  \<open>np.geomspace(start, stop, num)\<close>: a zero endpoint or a negative count raises
  ValueError; the endpoints are stored as given and the points between are
  \<open>start * (stop / start) ** (j / (num - 1))\<close>, with the sign of the endpoints.
  Endpoints of opposite sign give \<open>nan\<close> between them; such a grid is not followed.
\<close>

definition geomspace :: "real \<Rightarrow> real \<Rightarrow> int \<Rightarrow> real list res" where
  "geomspace start stop num =
     (if start = 0 \<or> stop = 0 then Raise ValueError
      else if num < 0 then Raise ValueError
      else if (start < 0) \<noteq> (stop < 0) then Unmodelled
      else Ok (map (\<lambda>j. if j = 0 then start
                          else if j = nat num - 1 then stop
                          else start * (stop / start) powr (real j / real (nat num - 1)))
                   [0..<nat num]))"

text \<open>\<open>np.argmin\<close>: the index of the first minimum; ValueError on an empty array.\<close>

fun argmin :: "real list \<Rightarrow> nat" where
  "argmin [] = 0"
| "argmin (x # xs) = (if list_all (\<lambda>y. x \<le> y) xs then 0 else Suc (argmin xs))"

definition find_nearest :: "real list \<Rightarrow> real \<Rightarrow> (nat \<times> real) res" where
  "find_nearest arr val =
     (if arr = [] then Raise ValueError
      else let idx = argmin (map (\<lambda>x. \<bar>x - val\<bar>) arr) in Ok (idx, arr ! idx))"

text \<open>\<open>np.where(chi < c)[0][0]\<close>: the first index below \<open>c\<close>; \<open>None\<close> where Python raises
  IndexError.\<close>

fun first_below :: "real \<Rightarrow> real list \<Rightarrow> nat option" where
  "first_below c [] = None"
| "first_below c (x # xs) = (if x < c then Some 0 else map_option Suc (first_below c xs))"

text \<open>
  \<open>chi[smask]\<close> and \<open>arr[smask] = vals\<close> for a boolean mask. The mask, the array and the
  values have matching lengths wherever the script assigns (numpy raises otherwise).
\<close>

fun compress :: "bool list \<Rightarrow> 'a list \<Rightarrow> 'a list" where
  "compress (b # bs) (x # xs) = (if b then x # compress bs xs else compress bs xs)"
| "compress _ _ = []"

fun put_mask :: "bool list \<Rightarrow> 'a list \<Rightarrow> 'a list \<Rightarrow> 'a list" where
  "put_mask (True # bs) (x # xs) (v # vs) = v # put_mask bs xs vs"
| "put_mask (b # bs) (x # xs) vs = x # put_mask bs xs vs"
| "put_mask _ xs _ = xs"

subsection \<open>The script's arguments and local variables\<close>

record args =
  arg_e0 :: real
  arg_rho0 :: real
  arg_t0 :: real
  arg_nzones :: int
  arg_rmax :: real
  arg_bmk_m :: real
  arg_k :: real
  arg_tinterval :: real

text \<open>The locals that the loop only reads.\<close>

record env =
  env_r :: "real list"
  env_r0 :: real
  env_dt :: real
  env_tphysical :: real

text \<open>A checkpoint file: its index in the file name and its datasets.\<close>

record checkpoint =
  chk_index :: nat
  chk_current_time :: real
  chk_rho :: "real list"
  chk_p :: "real list"
  chk_v :: "real option list"

text \<open>The locals that the loop changes, and the files written so far.\<close>

record state =
  s_t :: real
  s_ell :: real
  s_rho :: "real list"
  s_gamma_fluid :: "real list"
  s_pressure :: "real list"
  s_interval :: real
  s_i :: nat
  s_times :: "real list"
  s_ells :: "real list"
  s_rshock_idx :: nat
  s_upstream :: nat
  s_files :: "checkpoint list"

definition default_args :: args where
  "default_args =
     \<lparr>arg_e0 = 1, arg_rho0 = 1, arg_t0 = 1 / 100, arg_nzones = 4096, arg_rmax = 1,
      arg_bmk_m = 3, arg_k = 0, arg_tinterval = 1 / 10\<rparr>"

subsection \<open>Initial conditions (lines 84 to 118)\<close>

text \<open>
  The statements of \<open>main\<close> before the loop, in their order, with the exceptions they
  raise: \<open>e0 / rho0\<close> (line 86), the shock Lorentz factor at \<open>t0\<close> (line 94), the shock
  radius (line 98), the grid (line 99), \<open>gamma_fluid[0]\<close> on an empty grid (line 106),
  the floor division by \<open>tinterval\<close> (line 110) and the nearest index (line 116). The
  unit conversions of lines 90 and 91, \<open>gamma_max0\<close> (line 95, the same call as line 94
  divided by \<open>2.0**0.5\<close>) and the figure are not read again and raise nothing more.
\<close>

definition init :: "args \<Rightarrow> (env \<times> state) res" where
  "init a =
     (if arg_rho0 a = 0 then Raise ZeroDivisionError
      else case as_float (float_pow (arg_e0 a / arg_rho0 a) (1 / 3)) of
        Raise e \<Rightarrow> Raise e | Unmodelled \<Rightarrow> Unmodelled
      | Ok ell \<Rightarrow>
      (case as_float (float_pow ((17 - 4 * arg_k a) / (8 * pi)) (1 / 3)) of
        Raise e \<Rightarrow> Raise e | Unmodelled \<Rightarrow> Unmodelled
      | Ok c \<Rightarrow>
      let tphysical = c * ell in
      (case as_float (calc_shock_lorentz_gamma ell (arg_t0 a) (arg_k a)) of
        Raise e \<Rightarrow> Raise e | Unmodelled \<Rightarrow> Unmodelled
      | Ok gamma_shock0 \<Rightarrow>
      (case calc_shock_radius gamma_shock0 (arg_t0 a) (arg_bmk_m a) of
        Inl e \<Rightarrow> Raise e
      | Inr r0 \<Rightarrow>
      (case geomspace r0 (arg_rmax a) (arg_nzones a) of
        Raise e \<Rightarrow> Raise e | Unmodelled \<Rightarrow> Unmodelled
      | Ok r \<Rightarrow>
      let rho = map (\<lambda>x. 1 * arg_rho0 a * (x / r0) powr (- arg_k a)) r;
          pressure = map (\<lambda>x. x * (1 / 1000000)) rho
      in if r = [] then Raise IndexError
      else let gamma_fluid = (map (\<lambda>x. 1) r)[0 := gamma_shock0 / 2 powr (1 / 2)];
               dt = (arg_rmax a - r0) / real_of_int (arg_nzones a)
      in if arg_tinterval a = 0 then Raise ZeroDivisionError
      else (case find_nearest r r0 of
        Raise e \<Rightarrow> Raise e | Unmodelled \<Rightarrow> Unmodelled
      | Ok (idx, v) \<Rightarrow>
          Ok (\<lparr>env_r = r, env_r0 = r0, env_dt = dt, env_tphysical = tphysical\<rparr>,
              \<lparr>s_t = arg_t0 a, s_ell = ell, s_rho = rho, s_gamma_fluid = gamma_fluid,
               s_pressure = pressure, s_interval = 0, s_i = 0, s_times = [], s_ells = [],
               s_rshock_idx = idx, s_upstream = 1, s_files = []\<rparr>)))))))"

subsection \<open>One pass of the loop body (lines 121 to 169)\<close>

definition smask :: "real list \<Rightarrow> real \<Rightarrow> bool list" where
  "smask chi chi_critical = map (\<lambda>c. 1 \<le> c \<and> c \<le> chi_critical) chi"

text \<open>
  Lines 121 to 133. Inside the loop \<open>ell\<close> is a numpy float from the second pass on,
  and in the first pass the same call has succeeded in the initial conditions: a zero
  \<open>t\<close> gives \<open>inf\<close>, not an exception. The result carries \<open>chi\<close> and \<open>gamma_shock\<close>,
  which the rest of the body reads.
\<close>

definition update_fluid :: "args \<Rightarrow> env \<Rightarrow> state \<Rightarrow> (state \<times> real list \<times> real) res" where
  "update_fluid a e s =
     (case as_float (calc_shock_lorentz_gamma (s_ell s) (s_t s) (arg_k a)) of
        Raise err \<Rightarrow> Unmodelled
      | Unmodelled \<Rightarrow> Unmodelled
      | Ok gamma_shock \<Rightarrow>
      let chi_critical = gamma_shock ^ 2 / 2 in
      (case calc_chi_arr (s_ell s) (env_r e) (s_t s) (arg_bmk_m a) (arg_k a) of
        Raise err \<Rightarrow> Unmodelled
      | Unmodelled \<Rightarrow> Unmodelled
      | Ok chi0 \<Rightarrow>
      if \<not> s_rshock_idx s < length chi0 then Raise IndexError
      else let chi = chi0[s_rshock_idx s := 1];
               mask = smask chi chi_critical
      in (case calc_rho_arr gamma_shock (compress mask chi) (arg_rho0 a) (arg_k a) of
        Inl err \<Rightarrow> Raise err
      | Inr new_rho \<Rightarrow>
      let new_gamma = calc_gamma_fluid_arr gamma_shock (compress mask chi) in
      (case calc_pressure_arr gamma_shock (compress mask chi) (arg_rho0 a) (arg_k a) of
        Inl err \<Rightarrow> Raise err
      | Inr new_p \<Rightarrow>
          Ok (s\<lparr>s_rho := put_mask mask (s_rho s) new_rho,
                s_gamma_fluid := put_mask mask (s_gamma_fluid s) new_gamma,
                s_pressure := put_mask mask (s_pressure s) new_p\<rparr>,
              chi, gamma_shock)))))"

text \<open>
  Line 140, \<open>beta = (1.0 - (gamma_fluid)**(-2.0))**0.5\<close>, for one element of the numpy
  array: nothing raises. A zero \<open>gamma_fluid\<close> gives \<open>inf\<close> under the root and a
  \<open>gamma_fluid\<close> of modulus below 1 a negative number, whose root is \<open>nan\<close>; the entry
  is \<open>None\<close> then.
\<close>

definition beta :: "real \<Rightarrow> real option" where
  "beta gamma_fluid =
     (if gamma_fluid = 0 then None
      else if 1 - inverse (gamma_fluid ^ 2) < 0 then None
      else Some ((1 - inverse (gamma_fluid ^ 2)) powr (1 / 2)))"

text \<open>Lines 135 to 160: the checkpoint file.\<close>

definition write_checkpoint :: "args \<Rightarrow> state \<Rightarrow> state" where
  "write_checkpoint a s =
     (if s_t s \<ge> s_interval s
      then s\<lparr>s_files := s_files s @
                [\<lparr>chk_index = s_i s, chk_current_time = s_t s, chk_rho = s_rho s,
                  chk_p = s_pressure s,
                  chk_v = map beta (s_gamma_fluid s)\<rparr>],
             s_interval := s_interval s + arg_tinterval a,
             s_i := s_i s + 1\<rparr>
      else s)"

text \<open>
  Lines 162 to 169. The lookup \<open>np.where(chi < 1.0)[0][0]\<close> raises IndexError when no
  entry is below 1, after \<open>t\<close> has been advanced. A zero \<open>rho[upstream]\<close>, a negative
  quotient and a zero base in the shock radius give \<open>inf\<close> or \<open>nan\<close> on numpy floats.
\<close>

datatype step_result = Next state | Fails pyerror state | Leaves

definition advance :: "args \<Rightarrow> env \<Rightarrow> state \<Rightarrow> real list \<Rightarrow> real \<Rightarrow> step_result" where
  "advance a e s chi gamma_shock =
     (let s1 = s\<lparr>s_ells := s_ells s @ [s_ell s], s_times := s_times s @ [s_t s],
                 s_t := s_t s + env_dt e\<rparr>
      in case first_below 1 chi of
        None \<Rightarrow> Fails IndexError s1
      | Some upstream \<Rightarrow>
          if \<not> upstream < length (s_rho s1) then Fails IndexError (s1\<lparr>s_upstream := upstream\<rparr>)
          else if s_rho s1 ! upstream = 0 \<or> arg_e0 a / (s_rho s1 ! upstream) < 0 then Leaves
          else let ell = (arg_e0 a / (s_rho s1 ! upstream)) powr (1 / 3) in
          (case calc_shock_radius gamma_shock (s_t s1) (arg_bmk_m a) of
             Inl err \<Rightarrow> Leaves
           | Inr rshock \<Rightarrow>
          (case find_nearest (env_r e) rshock of
             Raise err \<Rightarrow> Fails err (s1\<lparr>s_upstream := upstream, s_ell := ell\<rparr>)
           | Unmodelled \<Rightarrow> Leaves
           | Ok (idx, v) \<Rightarrow>
               Next (s1\<lparr>s_upstream := upstream, s_ell := ell, s_rshock_idx := idx\<rparr>))))"

definition step :: "args \<Rightarrow> env \<Rightarrow> state \<Rightarrow> step_result" where
  "step a e s =
     (case update_fluid a e s of
        Raise err \<Rightarrow> Fails err s
      | Unmodelled \<Rightarrow> Leaves
      | Ok (s1, chi, gamma_shock) \<Rightarrow> advance a e (write_checkpoint a s1) chi gamma_shock)"

subsection \<open>The evolution loop and the run\<close>

text \<open>
  \<open>while t < tphysical\<close>, with a bound on the number of passes: the loop need not end
  (a zero \<open>dt\<close>), and \<open>OutOfFuel\<close> says that the bound was reached.
\<close>

datatype outcome =
    Finished state
  | Raised pyerror state
  | InitRaised pyerror
  | NotModelled
  | OutOfFuel

fun evolve :: "nat \<Rightarrow> args \<Rightarrow> env \<Rightarrow> state \<Rightarrow> outcome" where
  "evolve 0 a e s = (if \<not> s_t s < env_tphysical e then Finished s else OutOfFuel)"
| "evolve (Suc fuel) a e s =
     (if \<not> s_t s < env_tphysical e then Finished s
      else case step a e s of
             Next s' \<Rightarrow> evolve fuel a e s'
           | Fails err s' \<Rightarrow> Raised err s'
           | Leaves \<Rightarrow> NotModelled)"

definition main :: "nat \<Rightarrow> args \<Rightarrow> outcome" where
  "main fuel a =
     (case init a of
        Raise err \<Rightarrow> InitRaised err
      | Unmodelled \<Rightarrow> NotModelled
      | Ok (e, s) \<Rightarrow> evolve fuel a e s)"

subsection \<open>Observations of a run\<close>

text \<open>
  The state after \<open>j\<close> complete passes of the loop, \<open>None\<close> when the loop has ended or
  raised before.
\<close>

fun passes :: "nat \<Rightarrow> args \<Rightarrow> env \<Rightarrow> state \<Rightarrow> state option" where
  "passes 0 a e s = Some s"
| "passes (Suc j) a e s =
     (if s_t s < env_tphysical e
      then (case step a e s of Next s' \<Rightarrow> passes j a e s' | Fails err s' \<Rightarrow> None | Leaves \<Rightarrow> None)
      else None)"

text \<open>
  The exception a run ends with, in the loop or before it, and the checkpoint files
  it wrote.
\<close>

fun loop_raised :: "outcome \<Rightarrow> pyerror option" where
  "loop_raised (Raised err s) = Some err"
| "loop_raised _ = None"

fun init_raised :: "outcome \<Rightarrow> pyerror option" where
  "init_raised (InitRaised err) = Some err"
| "init_raised _ = None"

fun files_written :: "outcome \<Rightarrow> checkpoint list" where
  "files_written (Finished s) = s_files s"
| "files_written (Raised err s) = s_files s"
| "files_written _ = []"

text \<open>The loop has ended by its condition, without an exception.\<close>

fun ended_normally :: "outcome \<Rightarrow> bool" where
  "ended_normally (Finished s) = True"
| "ended_normally _ = False"

text \<open>
  Grid point \<open>i\<close> holds values of the shocked-region formulas, for some shock Lorentz
  factor and some similarity variable of the mask; it holds the same values in two
  states; the three fluid arrays have the length of the grid.
\<close>

definition shocked_values :: "args \<Rightarrow> state \<Rightarrow> nat \<Rightarrow> bool" where
  "shocked_values a s i \<longleftrightarrow>
     (\<exists>g c. 1 \<le> c \<and> c \<le> g ^ 2 / 2 \<and>
            s_rho s ! i = calc_rho g c (arg_rho0 a) (arg_k a) \<and>
            s_gamma_fluid s ! i = calc_gamma_fluid g c \<and>
            s_pressure s ! i = calc_pressure g c (arg_rho0 a) (arg_k a))"

definition same_values :: "state \<Rightarrow> state \<Rightarrow> nat \<Rightarrow> bool" where
  "same_values s s' i \<longleftrightarrow>
     s_rho s' ! i = s_rho s ! i \<and> s_gamma_fluid s' ! i = s_gamma_fluid s ! i \<and>
     s_pressure s' ! i = s_pressure s ! i"

definition arrays_fit :: "env \<Rightarrow> state \<Rightarrow> bool" where
  "arrays_fit e s \<longleftrightarrow>
     length (s_rho s) = length (env_r e) \<and> length (s_gamma_fluid s) = length (env_r e) \<and>
     length (s_pressure s) = length (env_r e)"

subsection \<open>The default scenario\<close>

text \<open>
  The default arguments with a given number of zones, and the values the initial
  conditions compute from them (\<open>init_zones\<close> below): the first shock Lorentz factor, the
  first shock radius, the deceleration time, the grid and the first state.
\<close>

definition zones_args :: "int \<Rightarrow> args" where
  "zones_args n = default_args\<lparr>arg_nzones := n\<rparr>"

definition default_gamma_shock0 :: real where
  "default_gamma_shock0 = sqrt (17 / (8 * pi)) * 1000"

definition default_r0 :: real where
  "default_r0 = 1 / 100 * (1 - inverse (8 * default_gamma_shock0 ^ 2))"

definition default_tphysical :: real where
  "default_tphysical = (17 / (8 * pi)) powr (1 / 3)"

definition default_grid :: "nat \<Rightarrow> real list" where
  "default_grid n =
     map (\<lambda>j. if j = 0 then default_r0 else if j = n - 1 then 1
               else default_r0 * (1 / default_r0) powr (real j / real (n - 1))) [0..<n]"

definition default_env :: "nat \<Rightarrow> env" where
  "default_env n =
     \<lparr>env_r = default_grid n, env_r0 = default_r0, env_dt = (1 - default_r0) / real n,
      env_tphysical = default_tphysical\<rparr>"

definition default_state :: "nat \<Rightarrow> state" where
  "default_state n =
     \<lparr>s_t = 1 / 100, s_ell = 1, s_rho = map (\<lambda>x. 1) (default_grid n),
      s_gamma_fluid = (map (\<lambda>x. 1) (default_grid n))[0 := default_gamma_shock0 / sqrt 2],
      s_pressure = map (\<lambda>x. 1 / 1000000) (default_grid n),
      s_interval = 0, s_i = 0, s_times = [], s_ells = [],
      s_rshock_idx = 0, s_upstream = 1, s_files = []\<rparr>"

text \<open>
  Invariants of the default run on \<open>n\<close> zones: the arrays keep their length, the length
  scale and the densities stay positive, the shock index stays below \<open>b\<close>, and \<open>t\<close> is
  \<open>t0\<close> plus one \<open>dt\<close> per recorded pass. For the checkpoints (interval 1/10): file
  \<open>j\<close> is written at the first pass whose time has reached \<open>j / 10\<close>.
\<close>

definition run_inv :: "nat \<Rightarrow> nat \<Rightarrow> state \<Rightarrow> bool" where
  "run_inv n b s \<longleftrightarrow>
     length (s_rho s) = n \<and> length (s_gamma_fluid s) = n \<and> length (s_pressure s) = n \<and>
     0 < s_ell s \<and> list_all (\<lambda>x. 0 < x) (s_rho s) \<and> s_rshock_idx s < b \<and>
     s_t s = 1 / 100 + real (length (s_times s)) * ((1 - default_r0) / real n) \<and>
     length (s_times s) \<le> n"

definition chk_inv :: "real \<Rightarrow> state \<Rightarrow> bool" where
  "chk_inv dt s \<longleftrightarrow>
     s_interval s = real (s_i s) / 10 \<and> map chk_index (s_files s) = [0..<s_i s] \<and>
     list_all (\<lambda>c. real (chk_index c) / 10 \<le> chk_current_time c \<and>
                   (chk_index c = 0 \<and> chk_current_time c = 1 / 100 \<or>
                    0 < chk_index c \<and> chk_current_time c - dt < real (chk_index c) / 10))
              (s_files s) \<and>
     (if s_times s = [] then s_i s = 0
      else 1 \<le> s_i s \<and> real (s_i s) / 10 - 1 / 10 \<le> s_t s - dt \<and> s_t s - dt < real (s_i s) / 10 \<and>
           s_t s - dt < default_tphysical)"

section \<open>Properties of the kinematic formulas\<close>

lemma half_not_int: "(1 / 2 :: real) \<notin> \<int>"
proof
  assume "(1 / 2 :: real) \<in> \<int>"
  then obtain n :: int where "(1 / 2 :: real) = of_int n" by (auto elim: Ints_cases)
  then have "(1 :: real) = of_int (2 * n)" by simp
  then have "(1 :: int) = 2 * n" by (metis of_int_eq_iff of_int_1)
  then show False by presburger
qed

lemma three_halves_not_int: "(3 / 2 :: real) \<notin> \<int>"
proof
  assume "(3 / 2 :: real) \<in> \<int>"
  then obtain n :: int where "(3 / 2 :: real) = of_int n" by (auto elim: Ints_cases)
  then have "(3 :: real) = of_int (2 * n)" by simp
  then have "(3 :: int) = 2 * n" by (metis of_int_eq_iff of_int_numeral)
  then show False by presburger
qed

lemma float_pow_nonneg: "0 \<le> x \<Longrightarrow> 0 < y \<Longrightarrow> float_pow x y = Inr (PyFloat (x powr y))"
  by (simp add: float_pow_def)

lemma float_pow_neg_half: "x < 0 \<Longrightarrow> float_pow x (1 / 2) = Inr (PyComplex (of_real (\<bar>x\<bar> powr (1 / 2)) * cis (pi * (1 / 2))))"
  using half_not_int by (simp add: float_pow_def)

lemma gamma_in_domain:
  assumes "k \<le> 17 / 4" "t \<noteq> 0" "0 \<le> l / t"
  shows "calc_shock_lorentz_gamma l t k = Inr (PyFloat (((17 - 4 * k) / 8 / pi) powr (1 / 2) * (l / t) powr (3 / 2)))"
proof -
  have "0 \<le> (17 - 4 * k) / 8 / pi" using assms(1) by simp
  then show ?thesis using assms by (simp add: calc_shock_lorentz_gamma_def float_pow_nonneg)
qed

lemma gamma_complex:
  assumes "17 / 4 < k" "t \<noteq> 0"
  shows "\<exists>z. calc_shock_lorentz_gamma l t k = Inr (PyComplex z)"
proof -
  have neg: "(17 - 4 * k) / 8 / pi < 0" using assms(1) by (simp add: divide_neg_pos)
  obtain b where b: "float_pow (l / t) (3 / 2) = Inr b"
    by (cases "float_pow (l / t) (3 / 2)") (auto simp: float_pow_def split: if_splits)
  show ?thesis using assms(2) b float_pow_neg_half[OF neg]
    by (cases b) (simp_all add: calc_shock_lorentz_gamma_def)
qed

lemma as_float_gamma:
  assumes "k \<le> 17 / 4" "t \<noteq> 0" "0 \<le> l / t"
  shows "as_float (calc_shock_lorentz_gamma l t k) = Ok (((17 - 4 * k) / 8 / pi) powr (1 / 2) * (l / t) powr (3 / 2))"
  using gamma_in_domain[OF assms] by simp

text \<open>
  C7: for \<open>l > 0\<close>, \<open>t > 0\<close>, \<open>m > -1\<close> and \<open>k < 17/4\<close> the similarity variable is
  defined and does not increase with the radius: \<open>r1 \<le> r2\<close> gives
  \<open>chi(l, r2, t, m, k) \<le> chi(l, r1, t, m, k)\<close>.
\<close>

theorem chi_nonincreasing:
  assumes "0 < l" "0 < t" "- 1 < m" "k < 17 / 4" "r1 \<le> r2"
  shows "\<exists>c1 c2. calc_chi l r1 t m k = Ok c1 \<and> calc_chi l r2 t m k = Ok c2 \<and> c2 \<le> c1"
proof -
  define g where "g = ((17 - 4 * k) / 8 / pi) powr (1 / 2) * (l / t) powr (3 / 2)"
  have dom: "k \<le> 17 / 4" "t \<noteq> 0" "0 \<le> l / t" using assms by simp_all
  have g: "as_float (calc_shock_lorentz_gamma l t k) = Ok g"
    unfolding g_def by (rule as_float_gamma[OF dom])
  have coeff: "0 \<le> 1 + 2 * (m + 1) * g ^ 2" using assms(3) by simp
  have "r1 / t \<le> r2 / t" using assms(2,5) by (simp add: divide_right_mono)
  then have "1 - r2 / t \<le> 1 - r1 / t" by simp
  then have "(1 + 2 * (m + 1) * g ^ 2) * (1 - r2 / t) \<le> (1 + 2 * (m + 1) * g ^ 2) * (1 - r1 / t)"
    using coeff by (rule mult_left_mono)
  then show ?thesis using g by (simp add: calc_chi_def)
qed

text \<open>
  C7, an instance: the default parameters at \<open>t = 1/100\<close>, radii 1/200 and 1.
\<close>

theorem chi_nonincreasing_witness:
  "(0::real) < 1 \<and> (0::real) < 1 / 100 \<and> (- 1 :: real) < 3 \<and> (0::real) < 17 / 4 \<and> (1 / 200 :: real) \<le> 1 \<and>
   (\<exists>c1 c2. calc_chi 1 (1 / 200) (1 / 100) 3 0 = Ok c1 \<and> calc_chi 1 1 (1 / 100) 3 0 = Ok c2 \<and> c2 \<le> c1)"
  using chi_nonincreasing[of 1 "1 / 100" 3 0 "1 / 200" 1] by simp

text \<open>
  C8: \<open>fluidGamma(Gamma_sh, 1)\<close> is \<open>Gamma_sh / sqrt 2\<close> for every \<open>Gamma_sh\<close>, and
  wherever the shock Lorentz factor is a float (\<open>k \<le> 17/4\<close>, \<open>t \<noteq> 0\<close>, \<open>l / t \<ge> 0\<close>),
  \<open>fluidGammaMax(l, t, k)\<close> is \<open>fluidGamma(shockLorentzGamma(l, t, k), 1)\<close>.
\<close>

theorem fluid_gamma_shock_front:
  "calc_gamma_fluid gamma_shock 1 = gamma_shock / sqrt 2 \<and>
   (k \<le> 17 / 4 \<and> t \<noteq> 0 \<and> 0 \<le> l / t \<longrightarrow>
     (\<exists>g. calc_shock_lorentz_gamma l t k = Inr (PyFloat g) \<and>
          calc_fluid_gamma_max l t k = Inr (PyFloat (g / sqrt 2)) \<and>
          calc_fluid_gamma_max l t k = Inr (PyFloat (calc_gamma_fluid g 1))))"
proof -
  have a: "calc_gamma_fluid x 1 = x / sqrt 2" for x
    by (simp add: calc_gamma_fluid_def powr_half_sqrt)
  have b: "(2 :: real) powr (1 / 2) \<noteq> 0" by simp
  show ?thesis
  proof (intro conjI impI)
    show "calc_gamma_fluid gamma_shock 1 = gamma_shock / sqrt 2" by (rule a)
  next
    assume d: "k \<le> 17 / 4 \<and> t \<noteq> 0 \<and> 0 \<le> l / t"
    then have g: "calc_shock_lorentz_gamma l t k =
        Inr (PyFloat (((17 - 4 * k) / 8 / pi) powr (1 / 2) * (l / t) powr (3 / 2)))"
      by (simp add: gamma_in_domain)
    show "\<exists>g. calc_shock_lorentz_gamma l t k = Inr (PyFloat g) \<and>
          calc_fluid_gamma_max l t k = Inr (PyFloat (g / sqrt 2)) \<and>
          calc_fluid_gamma_max l t k = Inr (PyFloat (calc_gamma_fluid g 1))"
      using g b by (simp add: calc_fluid_gamma_max_def a powr_half_sqrt)
  qed
qed

text \<open>
  C8, an instance: the default parameters at \<open>t = 1/100\<close>.
\<close>

theorem fluid_gamma_shock_front_witness:
  "calc_gamma_fluid 2 1 = 2 / sqrt 2 \<and> (0 :: real) \<le> 17 / 4 \<and> (1 / 100 :: real) \<noteq> 0 \<and> (0 :: real) \<le> 1 / (1 / 100) \<and>
     (\<exists>g. calc_shock_lorentz_gamma 1 (1 / 100) 0 = Inr (PyFloat g) \<and>
          calc_fluid_gamma_max 1 (1 / 100) 0 = Inr (PyFloat (g / sqrt 2)) \<and>
          calc_fluid_gamma_max 1 (1 / 100) 0 = Inr (PyFloat (calc_gamma_fluid g 1)))"
  using fluid_gamma_shock_front[of 2 0 "1 / 100" 1] by simp

lemma float_max_ge: "3 \<le> float_max"
proof -
  have "(2 :: real) ^ 971 * 2 \<le> 2 ^ 971 * 2 ^ 53" by (intro mult_left_mono) simp_all
  then have "(2 :: real) ^ 971 * 2 \<le> 2 ^ 1024" by (simp add: power_add[symmetric])
  moreover have "(4 :: real) \<le> 2 ^ 971"
  proof -
    have "(2 :: real) ^ 2 \<le> 2 ^ 971" by (intro power_increasing) simp_all
    then show ?thesis by simp
  qed
  ultimately show ?thesis unfolding float_max_def by linarith
qed

text \<open>
  C5, amended: \<open>calc_shock_lorentz_gamma\<close> checks nothing about \<open>k\<close> and reports no
  failure for \<open>k \<ge> 17/4\<close>. For \<open>t \<noteq> 0\<close> and a power \<open>(l / t) ** 1.5\<close> within the range
  of the doubles (beyond it Python raises OverflowError, which is not represented), the
  call returns the float 0 at \<open>k = 17/4\<close> (when \<open>l / t \<ge> 0\<close>) and a complex number for
  \<open>k > 17/4\<close> (with \<open>4 k - 17\<close> within the range of the doubles).
\<close>

theorem shock_lorentz_gamma_no_domain_check:
  "(t \<noteq> 0 \<and> 0 \<le> l / t \<and> (l / t) powr (3 / 2) \<le> float_max \<longrightarrow>
      calc_shock_lorentz_gamma l t (17 / 4) = Inr (PyFloat 0)) \<and>
   (t \<noteq> 0 \<and> \<bar>l / t\<bar> powr (3 / 2) \<le> float_max \<and> 17 / 4 < k \<and> 4 * k - 17 \<le> float_max \<longrightarrow>
      (\<exists>z. calc_shock_lorentz_gamma l t k = Inr (PyComplex z)))"
proof (intro conjI impI)
  assume "t \<noteq> 0 \<and> 0 \<le> l / t \<and> (l / t) powr (3 / 2) \<le> float_max"
  then show "calc_shock_lorentz_gamma l t (17 / 4) = Inr (PyFloat 0)"
    using gamma_in_domain[of "17 / 4" t l] by simp
next
  assume "t \<noteq> 0 \<and> \<bar>l / t\<bar> powr (3 / 2) \<le> float_max \<and> 17 / 4 < k \<and> 4 * k - 17 \<le> float_max"
  then show "\<exists>z. calc_shock_lorentz_gamma l t k = Inr (PyComplex z)"
    using gamma_complex by blast
qed

text \<open>
  C5, an instance: \<open>k = 17/4\<close> and \<open>k = 5\<close> at \<open>l = t = 1\<close>.
\<close>

theorem shock_lorentz_gamma_no_domain_check_witness:
  "(1 :: real) \<noteq> 0 \<and> (0 :: real) \<le> 1 / 1 \<and> (1 / 1 :: real) powr (3 / 2) \<le> float_max \<and>
   calc_shock_lorentz_gamma 1 1 (17 / 4) = Inr (PyFloat 0) \<and>
   \<bar>1 / 1 :: real\<bar> powr (3 / 2) \<le> float_max \<and> (17 / 4 :: real) < 5 \<and> (4 * 5 - 17 :: real) \<le> float_max \<and>
   (\<exists>z. calc_shock_lorentz_gamma 1 1 5 = Inr (PyComplex z))"
  using shock_lorentz_gamma_no_domain_check[of 1 1 5] float_max_ge by simp

text \<open>
  C5, as the specification states it: \<open>shockLorentzGamma\<close> is defined only for
  \<open>k < 17/4\<close> and fails with a DomainError when invoked with \<open>k \<ge> 17/4\<close>. The function
  has no such check: at \<open>l = t = 1\<close> it returns the float 0 for \<open>k = 17/4\<close> and the
  complex number \<open>sqrt (3 / (8 pi)) j\<close> for \<open>k = 5\<close>.
\<close>

theorem shock_lorentz_gamma_boundary_returns:
  "calc_shock_lorentz_gamma 1 1 (17 / 4) = Inr (PyFloat 0) \<and>
   calc_shock_lorentz_gamma 1 1 5 = Inr (PyComplex (of_real (sqrt (3 / (8 * pi))) * \<i>))"
proof -
  have a: "calc_shock_lorentz_gamma 1 1 (17 / 4) = Inr (PyFloat 0)"
    using gamma_in_domain[of "17/4" 1 1] by simp
  have neg: "(17 - 4 * 5) / 8 / pi < 0" by simp
  have m: "\<bar>(17 - 4 * 5) / 8 / pi\<bar> = 3 / (8 * pi)" by simp
  have "float_pow ((17 - 4 * 5) / 8 / pi) (1 / 2) =
      Inr (PyComplex (of_real ((3 / (8 * pi)) powr (1 / 2)) * cis (pi * (1 / 2))))"
    using float_pow_neg_half[OF neg] by (simp only: m)
  moreover have "cis (pi * (1 / 2)) = \<i>" by (simp add: cis_pi_half)
  moreover have "(3 / (8 * pi)) powr (1 / 2) = sqrt (3 / (8 * pi))" by (intro powr_half_sqrt) simp
  moreover have "float_pow (1 / 1) (3 / 2) = Inr (PyFloat 1)" by (simp add: float_pow_def)
  ultimately have "calc_shock_lorentz_gamma 1 1 5 = Inr (PyComplex (of_real (sqrt (3 / (8 * pi))) * \<i>))"
    by (simp add: calc_shock_lorentz_gamma_def)
  with a show ?thesis by simp
qed

section \<open>Masked assignment and the fluid update\<close>

lemma length_put_mask: "length (put_mask bm xs vs) = length xs"
  by (induction bm xs vs rule: put_mask.induct) simp_all

lemma put_mask_nth:
  "length bm = length xs \<Longrightarrow> length cs = length xs \<Longrightarrow> i < length xs \<Longrightarrow>
   put_mask bm xs (map f (compress bm cs)) ! i = (if bm ! i then f (cs ! i) else xs ! i)"
proof (induction bm arbitrary: xs cs i)
  case Nil
  then show ?case by simp
next
  case (Cons b bs)
  then obtain x xs' where xs: "xs = x # xs'" by (cases xs) auto
  from Cons.prems xs obtain c cs' where cs: "cs = c # cs'" by (cases cs) auto
  show ?case
  proof (cases i)
    case 0
    then show ?thesis using xs cs by (cases b) simp_all
  next
    case (Suc j)
    have "put_mask bs xs' (map f (compress bs cs')) ! j =
          (if bs ! j then f (cs' ! j) else xs' ! j)"
      using Cons.prems xs cs Suc by (intro Cons.IH) simp_all
    then show ?thesis using xs cs Suc by (cases b) simp_all
  qed
qed

lemma put_mask_all_false: "list_all (\<lambda>b. \<not> b) bm \<Longrightarrow> put_mask bm xs vs = xs"
  by (induction bm xs vs rule: put_mask.induct) simp_all

lemma update_fluid_OkD:
  assumes "update_fluid a e s = Ok (s', chi, g)"
  shows "as_float (calc_shock_lorentz_gamma (s_ell s) (s_t s) (arg_k a)) = Ok g"
    and "s_rshock_idx s < length (env_r e)"
    and "chi = (map (\<lambda>x. (1 + 2 * (arg_bmk_m a + 1) * g ^ 2) * (1 - x / s_t s)) (env_r e))[s_rshock_idx s := 1]"
    and "arg_k a \<noteq> 4"
    and "s' = s\<lparr>s_rho := put_mask (smask chi (g ^ 2 / 2)) (s_rho s)
                   (map (\<lambda>c. calc_rho g c (arg_rho0 a) (arg_k a)) (compress (smask chi (g ^ 2 / 2)) chi)),
                s_gamma_fluid := put_mask (smask chi (g ^ 2 / 2)) (s_gamma_fluid s)
                   (map (calc_gamma_fluid g) (compress (smask chi (g ^ 2 / 2)) chi)),
                s_pressure := put_mask (smask chi (g ^ 2 / 2)) (s_pressure s)
                   (map (\<lambda>c. calc_pressure g c (arg_rho0 a) (arg_k a)) (compress (smask chi (g ^ 2 / 2)) chi))\<rparr>"
  using assms
  by (auto simp: update_fluid_def calc_chi_arr_def calc_rho_arr_def calc_pressure_arr_def
      calc_gamma_fluid_arr_def Let_def split: res.splits sum.splits if_splits)

lemma update_fluid_OkI:
  assumes "as_float (calc_shock_lorentz_gamma (s_ell s) (s_t s) (arg_k a)) = Ok g"
    and "s_rshock_idx s < length (env_r e)" and "arg_k a \<noteq> 4"
  shows "\<exists>s' chi. update_fluid a e s = Ok (s', chi, g)"
  using assms
  by (simp add: update_fluid_def calc_chi_arr_def calc_rho_arr_def calc_pressure_arr_def Let_def)

section \<open>Bounds on pi and the initial conditions\<close>

lemma pi_ge_3: "3 \<le> pi"
proof -
  have "sin (pi / 6) \<le> pi / 6" by (rule sin_x_le_x) simp
  then show ?thesis by (simp add: sin_30)
qed

lemma arctan_le_self: "0 \<le> x \<Longrightarrow> arctan x \<le> x"
proof (cases "x = 0")
  case True
  then show ?thesis by simp
next
  case False
  assume "0 \<le> x"
  with False have pos: "0 < x" by simp
  have "\<exists>z>0. z < x \<and> arctan x - arctan 0 = (x - 0) * inverse (1 + z\<^sup>2)"
    by (rule MVT2[OF pos]) (rule DERIV_arctan)
  then obtain z where z: "arctan x = x * inverse (1 + z\<^sup>2)" by auto
  have "inverse (1 + z\<^sup>2) \<le> 1" by (simp add: inverse_le_1_iff)
  then have "x * inverse (1 + z\<^sup>2) \<le> x * 1" using pos by (intro mult_left_mono) simp_all
  then show ?thesis using z by simp
qed

lemma pi_le_16_5: "pi \<le> 16 / 5"
proof -
  have a: "arctan (1 / 5) \<le> 1 / 5" by (rule arctan_le_self) simp
  have b: "0 \<le> arctan (1 / 239)" by simp
  have "pi / 4 \<le> 4 * (1 / 5)" using machin a b by linarith
  then show ?thesis by simp
qed

lemma hundred_powr: "(100 :: real) powr (3 / 2) = 1000"
proof -
  have "(100 :: real) = 10 powr 2" by simp
  then have "(100 :: real) powr (3 / 2) = (10 powr 2) powr (3 / 2)" by simp
  also have "\<dots> = 10 powr 3" by (simp only: powr_powr) simp
  also have "\<dots> = 1000" by simp
  finally show ?thesis .
qed

lemma argmin_less: "xs \<noteq> [] \<Longrightarrow> argmin xs < length xs"
proof (induction xs)
  case Nil
  then show ?case by simp
next
  case (Cons x xs)
  show ?case
  proof (cases "list_all (\<lambda>y. x \<le> y) xs")
    case True
    then show ?thesis by simp
  next
    case False
    then have "xs \<noteq> []" by auto
    with Cons.IH False show ?thesis by simp
  qed
qed

lemma geomspace_pos:
  "0 < start \<Longrightarrow> 0 < stop \<Longrightarrow> 0 \<le> num \<Longrightarrow>
   geomspace start stop num =
     Ok (map (\<lambda>j. if j = 0 then start else if j = nat num - 1 then stop
                    else start * (stop / start) powr (real j / real (nat num - 1))) [0..<nat num])"
  by (simp add: geomspace_def)

lemma init_Ok:
  fixes a :: args
  defines "ell \<equiv> (arg_e0 a / arg_rho0 a) powr (1 / 3)"
  defines "g0 \<equiv> ((17 - 4 * arg_k a) / 8 / pi) powr (1 / 2) * (ell / arg_t0 a) powr (3 / 2)"
  defines "r0 \<equiv> arg_t0 a * (1 - inverse (2 * (arg_bmk_m a + 1) * g0 ^ 2))"
  defines "r \<equiv> map (\<lambda>j. if j = 0 then r0 else if j = nat (arg_nzones a) - 1 then arg_rmax a
                    else r0 * (arg_rmax a / r0) powr (real j / real (nat (arg_nzones a) - 1)))
                [0..<nat (arg_nzones a)]"
  assumes dom: "arg_rho0 a \<noteq> 0" "0 \<le> arg_e0 a / arg_rho0 a" "arg_k a \<le> 17 / 4" "0 < arg_t0 a"
    and base: "2 * (arg_bmk_m a + 1) * g0 ^ 2 \<noteq> 0"
    and grid: "0 < r0" "0 < arg_rmax a" "1 \<le> arg_nzones a"
  shows "init a =
     (if arg_tinterval a = 0 then Raise ZeroDivisionError
      else Ok (\<lparr>env_r = r, env_r0 = r0,
                env_dt = (arg_rmax a - r0) / real_of_int (arg_nzones a),
                env_tphysical = ((17 - 4 * arg_k a) / (8 * pi)) powr (1 / 3) * ell\<rparr>,
               \<lparr>s_t = arg_t0 a, s_ell = ell,
                s_rho = map (\<lambda>x. 1 * arg_rho0 a * (x / r0) powr (- arg_k a)) r,
                s_gamma_fluid = (map (\<lambda>x. 1) r)[0 := g0 / 2 powr (1 / 2)],
                s_pressure = map (\<lambda>x. x * (1 / 1000000)) (map (\<lambda>x. 1 * arg_rho0 a * (x / r0) powr (- arg_k a)) r),
                s_interval = 0, s_i = 0, s_times = [], s_ells = [],
                s_rshock_idx = argmin (map (\<lambda>x. \<bar>x - r0\<bar>) r), s_upstream = 1, s_files = []\<rparr>))"
proof -
  have ell: "as_float (float_pow (arg_e0 a / arg_rho0 a) (1 / 3)) = Ok ell"
    using dom(2) by (simp add: float_pow_nonneg ell_def)
  have "0 \<le> (17 - 4 * arg_k a) / (8 * pi)" using dom(3) by simp
  then have c: "as_float (float_pow ((17 - 4 * arg_k a) / (8 * pi)) (1 / 3)) =
      Ok (((17 - 4 * arg_k a) / (8 * pi)) powr (1 / 3))"
    by (simp add: float_pow_nonneg)
  have "0 \<le> ell" by (simp add: ell_def)
  then have "0 \<le> ell / arg_t0 a" using dom(4) by simp
  then have g: "as_float (calc_shock_lorentz_gamma ell (arg_t0 a) (arg_k a)) = Ok g0"
    unfolding g0_def using dom(3,4) by (intro as_float_gamma) simp_all
  have rad: "calc_shock_radius g0 (arg_t0 a) (arg_bmk_m a) = Inr r0"
    using base by (simp add: calc_shock_radius_def r0_def)
  have geo: "geomspace r0 (arg_rmax a) (arg_nzones a) = Ok r"
    unfolding r_def using grid by (intro geomspace_pos) simp_all
  have ne: "r \<noteq> []" using grid(3) by (simp add: r_def)
  have near: "find_nearest r r0 = Ok (argmin (map (\<lambda>x. \<bar>x - r0\<bar>) r), r ! argmin (map (\<lambda>x. \<bar>x - r0\<bar>) r))"
    using ne by (simp add: find_nearest_def Let_def)
  show ?thesis
    using dom(1) ne by (simp add: init_def ell c g rad geo near Let_def)
qed

section \<open>The initial conditions of the default scenario\<close>

lemma ratio_bounds: "83 / 125 \<le> 17 / (8 * pi)" "17 / (8 * pi) \<le> 17 / 24"
proof -
  have p: "0 < pi" by simp
  have "17 / (8 * pi) \<ge> 17 / (8 * (16 / 5))"
    using pi_le_16_5 p by (intro divide_left_mono) simp_all
  then show "83 / 125 \<le> 17 / (8 * pi)" by simp
  have "17 / (8 * pi) \<le> 17 / (8 * 3)"
    using pi_ge_3 by (intro divide_left_mono) simp_all
  then show "17 / (8 * pi) \<le> 17 / 24" by simp
qed

lemma gamma0_sq: "default_gamma_shock0 ^ 2 = 17 / (8 * pi) * 1000000"
  by (simp add: default_gamma_shock0_def power_mult_distrib)

lemma gamma0_pos: "0 < default_gamma_shock0"
  by (simp add: default_gamma_shock0_def)

lemma gamma0_sq_bounds: "664000 \<le> default_gamma_shock0 ^ 2" "default_gamma_shock0 ^ 2 \<le> 708334"
  using ratio_bounds by (simp_all add: gamma0_sq)

lemma r0_bounds: "99 / 10000 \<le> default_r0" "default_r0 < 1 / 100"
proof -
  have g: "0 < 8 * default_gamma_shock0 ^ 2" using gamma0_pos by simp
  have "inverse (8 * default_gamma_shock0 ^ 2) \<le> inverse 100"
    using gamma0_sq_bounds(1) by (intro le_imp_inverse_le) simp_all
  then show "99 / 10000 \<le> default_r0" by (simp add: default_r0_def)
  have "0 < inverse (8 * default_gamma_shock0 ^ 2)" using g by simp
  then show "default_r0 < 1 / 100" by (simp add: default_r0_def)
qed

lemma r0_pos: "0 < default_r0" using r0_bounds(1) by simp

lemma cube_root_bounds:
  fixes a x :: real
  assumes "0 \<le> a"
  shows "a ^ 3 \<le> x \<Longrightarrow> a \<le> x powr (1 / 3)" and "0 \<le> x \<Longrightarrow> x < a ^ 3 \<Longrightarrow> x powr (1 / 3) < a"
proof -
  have a: "(a ^ 3) powr (1 / 3) = a"
  proof (cases "a = 0")
    case True then show ?thesis by simp
  next
    case False
    then have "0 < a" using assms by simp
    then have "(a ^ 3) powr (1 / 3) = (a powr 3) powr (1 / 3)" by simp
    also have "\<dots> = a powr 1" by (simp only: powr_powr) simp
    finally show ?thesis using \<open>0 < a\<close> by simp
  qed
  { assume "a ^ 3 \<le> x"
    then have "(a ^ 3) powr (1 / 3) \<le> x powr (1 / 3)"
      using assms by (intro powr_mono2) simp_all
    then show "a \<le> x powr (1 / 3)" using a by simp }
  { assume "0 \<le> x" "x < a ^ 3"
    then have "x powr (1 / 3) < (a ^ 3) powr (1 / 3)"
      by (intro powr_less_mono2) simp_all
    then show "x powr (1 / 3) < a" using a by simp }
qed

lemma tphysical_bounds: "87 / 100 \<le> default_tphysical" "default_tphysical < 223 / 250"
proof -
  have "(87 / 100 :: real) ^ 3 \<le> 83 / 125" by (simp add: power3_eq_cube)
  then have "(87 / 100 :: real) ^ 3 \<le> 17 / (8 * pi)" using ratio_bounds(1) by linarith
  then show "87 / 100 \<le> default_tphysical"
    unfolding default_tphysical_def by (intro cube_root_bounds(1)) simp_all
  have "(17 / 24 :: real) < (223 / 250) ^ 3" by (simp add: power3_eq_cube)
  then have "17 / (8 * pi) < (223 / 250 :: real) ^ 3" using ratio_bounds(2) by linarith
  then show "default_tphysical < 223 / 250"
    unfolding default_tphysical_def by (intro cube_root_bounds(2)) simp_all
qed

lemma default_grid_Cons: "1 \<le> n \<Longrightarrow> default_grid n = default_r0 # tl (default_grid n)"
  by (simp add: default_grid_def upt_conv_Cons)

lemma length_default_grid [simp]: "length (default_grid n) = n"
  by (simp add: default_grid_def)

lemma default_grid_pos: "x \<in> set (default_grid n) \<Longrightarrow> 0 < x"
  using r0_pos by (auto simp: default_grid_def)

lemma argmin_first_zero: "argmin (0 # map abs xs) = 0"
  by (simp add: list_all_iff)

lemma default_init_idx: "1 \<le> n \<Longrightarrow> argmin (map (\<lambda>x. \<bar>x - default_r0\<bar>) (default_grid n)) = 0"
proof -
  assume n: "1 \<le> n"
  have "map (\<lambda>x. \<bar>x - default_r0\<bar>) (default_grid n) =
        0 # map abs (map (\<lambda>x. x - default_r0) (tl (default_grid n)))"
    by (subst default_grid_Cons[OF n]) (simp add: comp_def)
  then show ?thesis by (simp only: argmin_first_zero)
qed

lemma init_default_like:
  assumes sel: "arg_e0 a = 1" "arg_rho0 a = 1" "arg_t0 a = 1 / 100" "arg_nzones a = int n"
    "arg_rmax a = 1" "arg_bmk_m a = 3" "arg_k a = 0"
    and n: "1 \<le> n"
  shows "init a = (if arg_tinterval a = 0 then Raise ZeroDivisionError
                   else Ok (default_env n, default_state n))"
proof -
  have half: "(17 / (8 * pi)) powr (1 / 2) = sqrt (17 / (8 * pi))"
    by (intro powr_half_sqrt) simp
  have g0: "((17 - 4 * arg_k a) / 8 / pi) powr (1 / 2) *
        ((arg_e0 a / arg_rho0 a) powr (1 / 3) / arg_t0 a) powr (3 / 2) = default_gamma_shock0"
    using half by (simp add: sel hundred_powr default_gamma_shock0_def mult.commute)
  have r0: "arg_t0 a * (1 - inverse (2 * (arg_bmk_m a + 1) * default_gamma_shock0 ^ 2)) = default_r0"
    by (simp add: sel default_r0_def)
  have grid: "map (\<lambda>j. if j = 0 then default_r0 else if j = nat (arg_nzones a) - 1 then arg_rmax a
                    else default_r0 * (arg_rmax a / default_r0) powr (real j / real (nat (arg_nzones a) - 1)))
                [0..<nat (arg_nzones a)] = default_grid n"
    by (simp add: sel default_grid_def)
  have base: "2 * (arg_bmk_m a + 1) * default_gamma_shock0 ^ 2 \<noteq> 0"
    using gamma0_pos by (simp add: sel)
  have "init a =
     (if arg_tinterval a = 0 then Raise ZeroDivisionError
      else Ok (\<lparr>env_r = default_grid n, env_r0 = default_r0,
                env_dt = (arg_rmax a - default_r0) / real_of_int (arg_nzones a),
                env_tphysical = ((17 - 4 * arg_k a) / (8 * pi)) powr (1 / 3) * (arg_e0 a / arg_rho0 a) powr (1 / 3)\<rparr>,
               \<lparr>s_t = arg_t0 a, s_ell = (arg_e0 a / arg_rho0 a) powr (1 / 3),
                s_rho = map (\<lambda>x. 1 * arg_rho0 a * (x / default_r0) powr (- arg_k a)) (default_grid n),
                s_gamma_fluid = (map (\<lambda>x. 1) (default_grid n))[0 := default_gamma_shock0 / 2 powr (1 / 2)],
                s_pressure = map (\<lambda>x. x * (1 / 1000000)) (map (\<lambda>x. 1 * arg_rho0 a * (x / default_r0) powr (- arg_k a)) (default_grid n)),
                s_interval = 0, s_i = 0, s_times = [], s_ells = [],
                s_rshock_idx = argmin (map (\<lambda>x. \<bar>x - default_r0\<bar>) (default_grid n)), s_upstream = 1, s_files = []\<rparr>))"
    using init_Ok[of a, unfolded g0 r0 grid] base r0_pos n by (simp add: sel)
  moreover have "\<forall>x\<in>set (default_grid n). x \<noteq> 0 \<and> default_r0 \<noteq> 0"
    using default_grid_pos[of _ n] r0_pos by auto
  ultimately show ?thesis
    by (simp add: default_init_idx[OF n] sel default_env_def default_state_def
        default_tphysical_def powr_half_sqrt comp_def cong: map_cong)
qed

lemma init_zones:
  assumes n: "1 \<le> n"
  shows "init (zones_args (int n)) = Ok (default_env n, default_state n)"
  using init_default_like[of "zones_args (int n)" n] n
  by (simp add: zones_args_def default_args_def)

section \<open>The shocked region\<close>

lemma smask_nth: "i < length chi \<Longrightarrow> smask chi cc ! i \<longleftrightarrow> 1 \<le> chi ! i \<and> chi ! i \<le> cc"
  by (simp add: smask_def)

lemma length_smask [simp]: "length (smask chi cc) = length chi"
  by (simp add: smask_def)

lemma update_fluid_length_chi:
  "update_fluid a e s = Ok (s', chi, g) \<Longrightarrow> length chi = length (env_r e)"
  by (drule update_fluid_OkD(3)) simp

lemma update_fluid_point:
  assumes u: "update_fluid a e s = Ok (s', chi, g)" and fit: "arrays_fit e s"
    and i: "i < length (env_r e)"
  shows "if 1 \<le> chi ! i \<and> chi ! i \<le> g ^ 2 / 2
         then s_rho s' ! i = calc_rho g (chi ! i) (arg_rho0 a) (arg_k a) \<and>
              s_gamma_fluid s' ! i = calc_gamma_fluid g (chi ! i) \<and>
              s_pressure s' ! i = calc_pressure g (chi ! i) (arg_rho0 a) (arg_k a)
         else s_rho s' ! i = s_rho s ! i \<and> s_gamma_fluid s' ! i = s_gamma_fluid s ! i \<and>
              s_pressure s' ! i = s_pressure s ! i"
proof -
  have len: "length chi = length (env_r e)" by (rule update_fluid_length_chi[OF u])
  let ?bm = "smask chi (g ^ 2 / 2)"
  have m: "?bm ! i \<longleftrightarrow> 1 \<le> chi ! i \<and> chi ! i \<le> g ^ 2 / 2"
    using i len by (simp add: smask_nth)
  have l: "length ?bm = length (env_r e)" using len by simp
  note s' = update_fluid_OkD(5)[OF u]
  have r: "s_rho s' ! i = (if ?bm ! i then calc_rho g (chi ! i) (arg_rho0 a) (arg_k a) else s_rho s ! i)"
    using fit i l len by (subst s') (simp add: arrays_fit_def put_mask_nth)
  have gm: "s_gamma_fluid s' ! i = (if ?bm ! i then calc_gamma_fluid g (chi ! i) else s_gamma_fluid s ! i)"
    using fit i l len by (subst s') (simp add: arrays_fit_def put_mask_nth)
  have p: "s_pressure s' ! i = (if ?bm ! i then calc_pressure g (chi ! i) (arg_rho0 a) (arg_k a) else s_pressure s ! i)"
    using fit i l len by (subst s') (simp add: arrays_fit_def put_mask_nth)
  show ?thesis using r gm p m by simp
qed

lemma update_fluid_fit:
  "update_fluid a e s = Ok (s', chi, g) \<Longrightarrow> arrays_fit e s \<Longrightarrow> arrays_fit e s'"
  by (drule update_fluid_OkD(5)) (simp add: arrays_fit_def length_put_mask)

lemma update_fluid_other:
  assumes "update_fluid a e s = Ok (s', chi, g)"
  shows "s_t s' = s_t s" "s_ell s' = s_ell s" "s_interval s' = s_interval s" "s_i s' = s_i s"
    "s_times s' = s_times s" "s_ells s' = s_ells s" "s_rshock_idx s' = s_rshock_idx s"
    "s_files s' = s_files s" "s_upstream s' = s_upstream s"
  using update_fluid_OkD(5)[OF assms] by simp_all

text \<open>
  C3: when the fluid update of a pass succeeds, \<open>g\<close> is the current shock Lorentz
  factor, \<open>chi\<close> is 1 at the shock index and \<open>calc_chi\<close> of the grid radius elsewhere,
  and for every grid point \<open>i\<close>: if \<open>1 \<le> chi[i] \<le> g^2 / 2\<close> then \<open>rho[i]\<close>,
  \<open>gamma_fluid[i]\<close> and \<open>pressure[i]\<close> are the values of \<open>calc_rho\<close>, \<open>calc_gamma_fluid\<close>
  and \<open>calc_pressure\<close> at \<open>g\<close> and \<open>chi[i]\<close>; otherwise the three keep their previous
  values.
\<close>

theorem shocked_region_update:
  assumes "update_fluid a e s = Ok (s', chi, g)" and "arrays_fit e s" and "i < length (env_r e)"
  shows "as_float (calc_shock_lorentz_gamma (s_ell s) (s_t s) (arg_k a)) = Ok g \<and>
         chi ! s_rshock_idx s = 1 \<and>
         (i \<noteq> s_rshock_idx s \<longrightarrow>
            calc_chi (s_ell s) (env_r e ! i) (s_t s) (arg_bmk_m a) (arg_k a) = Ok (chi ! i)) \<and>
         (if 1 \<le> chi ! i \<and> chi ! i \<le> g ^ 2 / 2
          then s_rho s' ! i = calc_rho g (chi ! i) (arg_rho0 a) (arg_k a) \<and>
               s_gamma_fluid s' ! i = calc_gamma_fluid g (chi ! i) \<and>
               s_pressure s' ! i = calc_pressure g (chi ! i) (arg_rho0 a) (arg_k a)
          else s_rho s' ! i = s_rho s ! i \<and> s_gamma_fluid s' ! i = s_gamma_fluid s ! i \<and>
               s_pressure s' ! i = s_pressure s ! i)"
proof (intro conjI impI)
  show g: "as_float (calc_shock_lorentz_gamma (s_ell s) (s_t s) (arg_k a)) = Ok g"
    by (rule update_fluid_OkD(1)[OF assms(1)])
  show "chi ! s_rshock_idx s = 1"
    using update_fluid_OkD(2,3)[OF assms(1)] by simp
  show "calc_chi (s_ell s) (env_r e ! i) (s_t s) (arg_bmk_m a) (arg_k a) = Ok (chi ! i)"
    if "i \<noteq> s_rshock_idx s"
    using that update_fluid_OkD(3)[OF assms(1)] assms(3) g by (simp add: calc_chi_def)
  show "if 1 \<le> chi ! i \<and> chi ! i \<le> g ^ 2 / 2
          then s_rho s' ! i = calc_rho g (chi ! i) (arg_rho0 a) (arg_k a) \<and>
               s_gamma_fluid s' ! i = calc_gamma_fluid g (chi ! i) \<and>
               s_pressure s' ! i = calc_pressure g (chi ! i) (arg_rho0 a) (arg_k a)
          else s_rho s' ! i = s_rho s ! i \<and> s_gamma_fluid s' ! i = s_gamma_fluid s ! i \<and>
               s_pressure s' ! i = s_pressure s ! i"
    by (rule update_fluid_point[OF assms])
qed

lemma smask_empty: "cc < 1 \<Longrightarrow> list_all (\<lambda>b. \<not> b) (smask chi cc)"
  by (auto simp: smask_def list_all_iff)

text \<open>
  C9, amended: if \<open>chi_critical = g^2 / 2 < 1\<close> and \<open>k \<noteq> 4\<close> then the fluid update
  raises nothing and returns the state as it was: the mask is empty, the shock index
  with its forced \<open>chi = 1\<close> included. (With \<open>k = 4\<close> the exponents of \<open>calc_rho\<close> and
  \<open>calc_pressure\<close> divide by zero, whatever the mask holds: \<open>update_fluid_k4\<close> below.)
\<close>

theorem subcritical_step_is_no_op:
  assumes "as_float (calc_shock_lorentz_gamma (s_ell s) (s_t s) (arg_k a)) = Ok g"
    and "s_rshock_idx s < length (env_r e)" and "arg_k a \<noteq> 4" and "g ^ 2 / 2 < 1"
  shows "\<exists>chi. update_fluid a e s = Ok (s, chi, g) \<and> chi ! s_rshock_idx s = 1 \<and>
           \<not> (1 \<le> chi ! s_rshock_idx s \<and> chi ! s_rshock_idx s \<le> g ^ 2 / 2) \<and>
           list_all (\<lambda>b. \<not> b) (smask chi (g ^ 2 / 2))"
proof -
  obtain s' chi where u: "update_fluid a e s = Ok (s', chi, g)"
    using update_fluid_OkI[OF assms(1-3)] by blast
  have e: "list_all (\<lambda>b. \<not> b) (smask chi (g ^ 2 / 2))" by (rule smask_empty[OF assms(4)])
  have "s' = s" using update_fluid_OkD(5)[OF u] by (simp add: put_mask_all_false[OF e])
  moreover have "chi ! s_rshock_idx s = 1" using update_fluid_OkD(2,3)[OF u] by simp
  ultimately show ?thesis using u e assms(4) by auto
qed

section \<open>Passes of the loop\<close>

lemma write_checkpoint_arrays:
  "s_rho (write_checkpoint a s) = s_rho s" "s_gamma_fluid (write_checkpoint a s) = s_gamma_fluid s"
  "s_pressure (write_checkpoint a s) = s_pressure s" "s_t (write_checkpoint a s) = s_t s"
  "s_ell (write_checkpoint a s) = s_ell s" "s_times (write_checkpoint a s) = s_times s"
  "s_ells (write_checkpoint a s) = s_ells s" "s_rshock_idx (write_checkpoint a s) = s_rshock_idx s"
  by (simp_all add: write_checkpoint_def)

lemma advance_arrays:
  assumes "advance a e s chi g = Next s' \<or> advance a e s chi g = Fails err s'"
  shows "s_rho s' = s_rho s" "s_gamma_fluid s' = s_gamma_fluid s" "s_pressure s' = s_pressure s"
    "s_files s' = s_files s" "s_interval s' = s_interval s" "s_i s' = s_i s"
    "s_t s' = s_t s + env_dt e" "s_times s' = s_times s @ [s_t s]" "s_ells s' = s_ells s @ [s_ell s]"
  using assms
  by (auto simp: advance_def Let_def split: option.splits if_splits sum.splits res.splits prod.splits)

lemma step_NextD:
  assumes "step a e s = Next s'"
  obtains s1 chi g where "update_fluid a e s = Ok (s1, chi, g)"
    and "advance a e (write_checkpoint a s1) chi g = Next s'"
  using assms by (auto simp: step_def split: res.splits prod.splits)

lemma step_point:
  assumes st: "step a e s = Next s'" and fit: "arrays_fit e s" and i: "i < length (env_r e)"
  shows "arrays_fit e s' \<and> (same_values s s' i \<or> shocked_values a s' i)"
proof -
  from st obtain s1 chi g where u: "update_fluid a e s = Ok (s1, chi, g)"
    and ad: "advance a e (write_checkpoint a s1) chi g = Next s'"
    by (rule step_NextD)
  have arr: "s_rho s' = s_rho s1" "s_gamma_fluid s' = s_gamma_fluid s1" "s_pressure s' = s_pressure s1"
    using advance_arrays(1-3)[of a e "write_checkpoint a s1" chi g s'] ad
    by (simp_all add: write_checkpoint_arrays)
  have fit': "arrays_fit e s'"
    using update_fluid_fit[OF u fit] arr by (simp add: arrays_fit_def)
  note pt = update_fluid_point[OF u fit i]
  show ?thesis
  proof (cases "1 \<le> chi ! i \<and> chi ! i \<le> g ^ 2 / 2")
    case True
    then have "shocked_values a s' i"
      using pt arr unfolding shocked_values_def by (intro exI[of _ g] exI[of _ "chi ! i"]) simp
    then show ?thesis using fit' by simp
  next
    case False
    then have "same_values s s' i" using pt arr by (simp add: same_values_def)
    then show ?thesis using fit' by simp
  qed
qed

lemma same_values_shocked: "same_values s s' i \<Longrightarrow> shocked_values a s i \<Longrightarrow> shocked_values a s' i"
  by (simp add: same_values_def shocked_values_def)

lemma same_values_trans: "same_values s s' i \<Longrightarrow> same_values s' s'' i \<Longrightarrow> same_values s s'' i"
  by (simp add: same_values_def)

lemma passes_point:
  "passes j a e s = Some s' \<Longrightarrow> arrays_fit e s \<Longrightarrow> i < length (env_r e) \<Longrightarrow>
   same_values s s' i \<or> shocked_values a s' i"
proof (induction j arbitrary: s)
  case 0
  then show ?case by (simp add: same_values_def)
next
  case (Suc j)
  from Suc.prems(1) obtain s1 where st: "step a e s = Next s1" and rest: "passes j a e s1 = Some s'"
    by (auto split: if_splits step_result.splits)
  have one: "arrays_fit e s1" "same_values s s1 i \<or> shocked_values a s1 i"
    using step_point[OF st Suc.prems(2,3)] by simp_all
  have more: "same_values s1 s' i \<or> shocked_values a s' i"
    by (rule Suc.IH[OF rest one(1) Suc.prems(3)])
  show ?case using one(2) more same_values_trans same_values_shocked by blast
qed

text \<open>
  C6: after any number of passes, a grid point holds either the values it had before
  them or values of the shocked-region formulas (for some \<open>g\<close> and some \<open>chi\<close> with
  \<open>1 \<le> chi \<le> g^2 / 2\<close>); in particular a point that holds shocked values holds shocked
  values after every later pass, whatever its later \<open>chi\<close>.
\<close>

theorem shocked_point_never_reverts:
  assumes "passes j a e s = Some s'" and "arrays_fit e s" and "i < length (env_r e)"
  shows "(same_values s s' i \<or> shocked_values a s' i) \<and>
         (shocked_values a s i \<longrightarrow> shocked_values a s' i)"
  using passes_point[OF assms] same_values_shocked by blast

text \<open>
  C1, amended: when no entry of \<open>chi\<close> is below 1, the lookup
  \<open>np.where(chi < 1.0)[0][0]\<close> raises IndexError and nothing catches it. The run ends
  with that exception, after the checkpoint block of the pass and after \<open>t\<close> has been
  advanced; the loop does not return a final state.
\<close>

theorem upstream_lookup_failure_raises:
  assumes "s_t s < env_tphysical e" and "update_fluid a e s = Ok (s1, chi, g)"
    and "first_below 1 chi = None"
  shows "evolve (Suc fuel) a e s =
           Raised IndexError
             ((write_checkpoint a s1)\<lparr>s_ells := s_ells s @ [s_ell s], s_times := s_times s @ [s_t s],
                                      s_t := s_t s + env_dt e\<rparr>)"
  using assms update_fluid_other[OF assms(2)]
  by (simp add: step_def advance_def Let_def write_checkpoint_arrays)

lemma update_fluid_k4:
  assumes "as_float (calc_shock_lorentz_gamma (s_ell s) (s_t s) (arg_k a)) = Ok g"
    and "s_rshock_idx s < length (env_r e)" and "arg_k a = 4"
  shows "update_fluid a e s = Raise ZeroDivisionError"
  using assms
  by (simp add: update_fluid_def calc_chi_arr_def calc_rho_arr_def Let_def)

lemma argmin_map_less: "xs \<noteq> [] \<Longrightarrow> argmin (map f xs) < length xs"
  using argmin_less[of "map f xs"] by simp

lemma init_OkD:
  assumes "init a = Ok (e, s)"
  shows "s_t s = arg_t0 a" "s_interval s = 0" "s_i s = 0" "s_files s = []" "s_times s = []"
    "\<exists>g. as_float (calc_shock_lorentz_gamma (s_ell s) (s_t s) (arg_k a)) = Ok g"
    "s_rshock_idx s < length (env_r e)" "arrays_fit e s" "arg_tinterval a \<noteq> 0"
  using assms
  by (auto simp: init_def Let_def find_nearest_def arrays_fit_def argmin_map_less
      split: res.splits sum.splits if_splits prod.splits)

lemma write_checkpoint_files: "\<exists>rest. s_files (write_checkpoint a s) = s_files s @ rest"
  by (simp add: write_checkpoint_def)

lemma step_files_prefix:
  assumes "step a e s = Next s' \<or> step a e s = Fails err s'"
  shows "\<exists>rest. s_files s' = s_files s @ rest"
proof (cases "update_fluid a e s")
  case (Ok x)
  obtain s1 chi g where x: "x = (s1, chi, g)" by (cases x)
  have u: "update_fluid a e s = Ok (s1, chi, g)" using Ok x by simp
  have ad: "advance a e (write_checkpoint a s1) chi g = Next s' \<or>
            advance a e (write_checkpoint a s1) chi g = Fails err s'"
    using assms u by (simp add: step_def)
  have "s_files s' = s_files (write_checkpoint a s1)" by (rule advance_arrays(4)[OF ad])
  then show ?thesis
    using write_checkpoint_files[of a s1] update_fluid_other(8)[OF u] by simp
next
  case (Raise x)
  then show ?thesis using assms by (simp add: step_def)
next
  case Unmodelled
  then show ?thesis using assms by (simp add: step_def)
qed

lemma evolve_files_prefix:
  "evolve fuel a e s = Finished s' \<or> evolve fuel a e s = Raised err s' \<Longrightarrow>
   \<exists>rest. s_files s' = s_files s @ rest"
proof (induction fuel arbitrary: s)
  case 0
  then show ?case by (simp split: if_splits)
next
  case (Suc fuel)
  show ?case
  proof (cases "s_t s < env_tphysical e")
    case False
    then show ?thesis using Suc.prems by simp
  next
    case True
    show ?thesis
    proof (cases "step a e s")
      case (Next s1)
      then have "evolve fuel a e s1 = Finished s' \<or> evolve fuel a e s1 = Raised err s'"
        using Suc.prems True by simp
      then obtain r1 where "s_files s' = s_files s1 @ r1" using Suc.IH by blast
      moreover obtain r0 where "s_files s1 = s_files s @ r0"
        using step_files_prefix[of a e s s1] Next by blast
      ultimately show ?thesis by simp
    next
      case (Fails err1 s1)
      then have "s' = s1" and "err = err1 \<or> True" using Suc.prems True by simp_all
      then show ?thesis using step_files_prefix[of a e s s1 err1] Fails by blast
    next
      case Leaves
      then show ?thesis using Suc.prems True by simp
    qed
  qed
qed

lemma evolve_not_init_raised: "evolve fuel a e s \<noteq> InitRaised err"
  by (induction fuel arbitrary: s) (simp_all split: step_result.splits)

lemma evolve_first_file:
  assumes "s_files s = [c]"
  shows "evolve fuel a e s = NotModelled \<or> evolve fuel a e s = OutOfFuel \<or>
         take 1 (files_written (evolve fuel a e s)) = [c]"
proof (cases "evolve fuel a e s")
  case (Finished s')
  then obtain rest where "s_files s' = s_files s @ rest" using evolve_files_prefix by blast
  then show ?thesis using Finished assms by simp
next
  case (Raised err s')
  then obtain rest where "s_files s' = s_files s @ rest" using evolve_files_prefix by blast
  then show ?thesis using Raised assms by simp
next
  case (InitRaised err)
  then show ?thesis using evolve_not_init_raised by blast
qed simp_all

text \<open>
  C10, amended: when the initial conditions succeed (then \<open>tinterval \<noteq> 0\<close>) with
  \<open>0 \<le> t0 < tphysical\<close> and \<open>k \<noteq> 4\<close>, the run enters the loop, the fluid update of the
  first pass succeeds, and the checkpoint block of that pass writes the file with index
  0 at \<open>current_time = t0\<close>, sets the boundary to \<open>tinterval\<close> and the counter to 1,
  whatever the value of \<open>tinterval\<close>; the run continues with the rest of the pass, and
  where it ends, by the loop condition or by an exception, that file is the first of
  the files written.
\<close>

theorem first_pass_writes_checkpoint_zero:
  assumes "init a = Ok (e, s)" and "0 \<le> arg_t0 a" and "arg_t0 a < env_tphysical e"
    and "arg_k a \<noteq> 4"
  shows "arg_tinterval a \<noteq> 0 \<and>
         (\<exists>s1 chi g c.
           update_fluid a e s = Ok (s1, chi, g) \<and>
           s_files (write_checkpoint a s1) = [c] \<and> chk_index c = 0 \<and>
           chk_current_time c = arg_t0 a \<and>
           s_interval (write_checkpoint a s1) = arg_tinterval a \<and>
           s_i (write_checkpoint a s1) = 1 \<and>
           main (Suc fuel) a =
             (case advance a e (write_checkpoint a s1) chi g of
                Next s' \<Rightarrow> evolve fuel a e s'
              | Fails err s' \<Rightarrow> Raised err s'
              | Leaves \<Rightarrow> NotModelled) \<and>
           (main (Suc fuel) a = NotModelled \<or> main (Suc fuel) a = OutOfFuel \<or>
            take 1 (files_written (main (Suc fuel) a)) = [c]))"
proof -
  note d = init_OkD[OF assms(1)]
  from d(6) obtain g where g: "as_float (calc_shock_lorentz_gamma (s_ell s) (s_t s) (arg_k a)) = Ok g" ..
  obtain s1 chi where u: "update_fluid a e s = Ok (s1, chi, g)"
    using update_fluid_OkI[OF g d(7) assms(4)] by blast
  note o = update_fluid_other[OF u]
  let ?w = "write_checkpoint a s1"
  define c where "c = \<lparr>chk_index = 0, chk_current_time = arg_t0 a, chk_rho = s_rho s1,
      chk_p = s_pressure s1, chk_v = map beta (s_gamma_fluid s1)\<rparr>"
  have w: "s_files ?w = [c]" "s_interval ?w = arg_tinterval a" "s_i ?w = 1"
    using assms(2) d(1-4) o by (simp_all add: write_checkpoint_def c_def)
  have c: "chk_index c = 0" "chk_current_time c = arg_t0 a" by (simp_all add: c_def)
  have lt: "s_t s < env_tphysical e" using assms(3) d(1) by simp
  have m: "main (Suc fuel) a =
             (case advance a e ?w chi g of
                Next s' \<Rightarrow> evolve fuel a e s'
              | Fails err s' \<Rightarrow> Raised err s'
              | Leaves \<Rightarrow> NotModelled)"
    using assms(1) lt u by (simp add: main_def step_def)
  have f: "main (Suc fuel) a = NotModelled \<or> main (Suc fuel) a = OutOfFuel \<or>
            take 1 (files_written (main (Suc fuel) a)) = [c]"
  proof (cases "advance a e ?w chi g")
    case (Next s')
    then have "s_files s' = [c]" using advance_arrays(4)[of a e ?w chi g s'] w(1) by simp
    then show ?thesis using evolve_first_file[of s' c fuel a e] m Next by simp
  next
    case (Fails err s')
    then have "s_files s' = [c]" using advance_arrays(4)[of a e ?w chi g s' err] w(1) by simp
    then show ?thesis using m Fails by simp
  next
    case Leaves
    then show ?thesis using m by simp
  qed
  show ?thesis using u w c m f d(9) by blast
qed

section \<open>The default run\<close>

lemma zones_sel [simp]:
  "arg_e0 (zones_args n) = 1" "arg_rho0 (zones_args n) = 1" "arg_t0 (zones_args n) = 1 / 100"
  "arg_nzones (zones_args n) = n" "arg_rmax (zones_args n) = 1" "arg_bmk_m (zones_args n) = 3"
  "arg_k (zones_args n) = 0" "arg_tinterval (zones_args n) = 1 / 10"
  by (simp_all add: zones_args_def default_args_def)

lemma env_sel [simp]:
  "env_r (default_env n) = default_grid n" "env_r0 (default_env n) = default_r0"
  "env_dt (default_env n) = (1 - default_r0) / real n" "env_tphysical (default_env n) = default_tphysical"
  by (simp_all add: default_env_def)

lemma gamma_default:
  assumes "0 < l" "0 < t"
  shows "\<exists>g. as_float (calc_shock_lorentz_gamma l t 0) = Ok g \<and> 0 < g"
proof -
  have "as_float (calc_shock_lorentz_gamma l t 0) =
        Ok (((17 - 4 * 0) / 8 / pi) powr (1 / 2) * (l / t) powr (3 / 2))"
    using assms by (intro as_float_gamma) simp_all
  moreover have "0 < ((17 - 4 * 0) / 8 / pi) powr (1 / 2) * (l / t) powr (3 / 2)"
    using assms by simp
  ultimately show ?thesis by blast
qed

lemma calc_rho_pos: "0 < g \<Longrightarrow> 0 < c \<Longrightarrow> 0 < calc_rho g c 1 0"
  by (simp add: calc_rho_def calc_gamma_fluid_def)

lemma compress_smask_ge: "x \<in> set (compress (smask chi cc) chi) \<Longrightarrow> 1 \<le> x"
  unfolding smask_def by (induction chi) (auto split: if_splits)

lemma put_mask_all: "list_all P xs \<Longrightarrow> list_all P vs \<Longrightarrow> list_all P (put_mask bm xs vs)"
  by (induction bm xs vs rule: put_mask.induct) simp_all

lemma first_below_None: "first_below c xs = None \<longleftrightarrow> list_all (\<lambda>x. \<not> x < c) xs"
  by (induction xs) auto

lemma first_below_Some: "first_below c xs = Some i \<Longrightarrow> i < length xs \<and> xs ! i < c"
  by (induction xs arbitrary: i) (auto split: if_splits)

lemma argmin_not_last:
  "j < length xs - 1 \<Longrightarrow> xs ! j \<le> xs ! (length xs - 1) \<Longrightarrow> argmin xs < length xs - 1"
proof (induction xs arbitrary: j)
  case Nil
  then show ?case by simp
next
  case (Cons x xs)
  then have ne: "xs \<noteq> []" by auto
  show ?case
  proof (cases "list_all (\<lambda>y. x \<le> y) xs")
    case True
    then show ?thesis using ne by simp
  next
    case False
    have last: "(x # xs) ! (length (x # xs) - 1) = xs ! (length xs - 1)"
      using ne by (simp add: nth_Cons')
    have "\<exists>j'. j' < length xs - 1 \<and> xs ! j' \<le> xs ! (length xs - 1)"
    proof (cases j)
      case 0
      then have xl: "x \<le> xs ! (length xs - 1)" using Cons.prems(2) last by simp
      from False obtain j' where j': "j' < length xs" "xs ! j' < x"
        by (auto simp: list_all_length not_le)
      then have "j' \<noteq> length xs - 1" using xl by auto
      then show ?thesis using j' xl by (intro exI[of _ j']) auto
    next
      case (Suc j'')
      then show ?thesis using Cons.prems last by (intro exI[of _ j'']) auto
    qed
    then obtain j' where "j' < length xs - 1" "xs ! j' \<le> xs ! (length xs - 1)" by blast
    then have "argmin xs < length xs - 1" by (rule Cons.IH)
    then show ?thesis using False by simp
  qed
qed

lemma dt_bounds: "1 \<le> n \<Longrightarrow> 0 < (1 - default_r0) / real n" "1 \<le> n \<Longrightarrow> (1 - default_r0) / real n \<le> 1 / real n"
  using r0_bounds r0_pos by (simp_all add: divide_right_mono)

lemma run_inv_t_pos:
  assumes "1 \<le> n" "run_inv n b s"
  shows "1 / 100 \<le> s_t s"
proof -
  have "0 \<le> real (length (s_times s)) * ((1 - default_r0) / real n)"
    using dt_bounds(1)[OF assms(1)] by (intro mult_nonneg_nonneg) simp_all
  then show ?thesis using assms(2) by (simp add: run_inv_def)
qed

lemma run_inv_len:
  assumes "1 \<le> n" "run_inv n b s" "s_t s < default_tphysical"
  shows "length (s_times s) < n"
proof (rule ccontr)
  assume "\<not> length (s_times s) < n"
  then have "length (s_times s) = n" using assms(2) by (simp add: run_inv_def)
  then have "s_t s = 1 / 100 + real n * ((1 - default_r0) / real n)"
    using assms(2) by (simp add: run_inv_def)
  then have "s_t s = 1 / 100 + (1 - default_r0)" using assms(1) by simp
  then show False using assms(3) tphysical_bounds(2) r0_bounds(2) by simp
qed

lemma default_update:
  assumes n: "1 \<le> n" and inv: "run_inv n b s" and b: "b \<le> n"
  shows "\<exists>s1 chi g. update_fluid (zones_args (int n)) (default_env n) s = Ok (s1, chi, g) \<and>
           0 < g \<and> list_all (\<lambda>x. 0 < x) (s_rho s1) \<and> length (s_rho s1) = n \<and>
           length (s_gamma_fluid s1) = n \<and> length (s_pressure s1) = n \<and> length chi = n"
proof -
  let ?a = "zones_args (int n)" and ?e = "default_env n"
  have t: "0 < s_t s" using run_inv_t_pos[OF n inv] by simp
  have l: "0 < s_ell s" using inv by (simp add: run_inv_def)
  obtain g where g: "as_float (calc_shock_lorentz_gamma (s_ell s) (s_t s) 0) = Ok g" "0 < g"
    using gamma_default[OF l t] by blast
  have idx: "s_rshock_idx s < length (env_r ?e)" using inv b by (simp add: run_inv_def)
  obtain s1 chi where u: "update_fluid ?a ?e s = Ok (s1, chi, g)"
    using update_fluid_OkI[of s ?a g ?e] g(1) idx by auto
  have fit: "arrays_fit ?e s" using inv by (simp add: arrays_fit_def run_inv_def)
  have fit1: "arrays_fit ?e s1" by (rule update_fluid_fit[OF u fit])
  have old: "list_all (\<lambda>x. 0 < x) (s_rho s)" using inv by (simp add: run_inv_def)
  have new: "list_all (\<lambda>x. 0 < x)
      (map (\<lambda>c. calc_rho g c (arg_rho0 ?a) (arg_k ?a)) (compress (smask chi (g ^ 2 / 2)) chi))"
  proof -
    have "0 < calc_rho g c 1 0" if "c \<in> set (compress (smask chi (g ^ 2 / 2)) chi)" for c
      using compress_smask_ge[OF that] g(2) by (intro calc_rho_pos) simp_all
    then show ?thesis by (simp add: list_all_iff)
  qed
  have "list_all (\<lambda>x. 0 < x) (s_rho s1)"
    using put_mask_all[OF old new] by (subst update_fluid_OkD(5)[OF u]) simp
  then show ?thesis
    using u g(2) fit1 update_fluid_length_chi[OF u] by (auto simp: arrays_fit_def)
qed

lemma shock_radius_default:
  assumes "0 < g" "0 < t"
  shows "\<exists>rs. calc_shock_radius g t 3 = Inr rs \<and> rs \<le> t"
proof -
  have b: "0 < 2 * (3 + 1) * g ^ 2" using assms(1) by simp
  have "0 \<le> inverse (2 * (3 + 1) * g ^ 2)" using b by simp
  then have "t * (1 - inverse (2 * (3 + 1) * g ^ 2)) \<le> t * 1"
    using assms(2) by (intro mult_left_mono) simp_all
  then show ?thesis using b by (simp add: calc_shock_radius_def)
qed

lemma default_step:
  assumes n: "1 \<le> n" and inv: "run_inv n b s" and b: "b \<le> n" and lt: "s_t s < default_tphysical"
  shows "\<exists>s1 chi g. update_fluid (zones_args (int n)) (default_env n) s = Ok (s1, chi, g) \<and> 0 < g \<and>
     (case first_below 1 chi of
        None \<Rightarrow> \<exists>s'. step (zones_args (int n)) (default_env n) s = Fails IndexError s' \<and>
                     length (s_times s') = Suc (length (s_times s))
      | Some up \<Rightarrow> \<exists>s' rs. step (zones_args (int n)) (default_env n) s = Next s' \<and> run_inv n n s' \<and>
                     rs \<le> s_t s + (1 - default_r0) / real n \<and>
                     s_rshock_idx s' = argmin (map (\<lambda>x. \<bar>x - rs\<bar>) (default_grid n)))"
proof -
  let ?a = "zones_args (int n)" and ?e = "default_env n"
  let ?dt = "(1 - default_r0) / real n"
  obtain s1 chi g where u: "update_fluid ?a ?e s = Ok (s1, chi, g)" and g: "0 < g"
    and pos: "list_all (\<lambda>x. 0 < x) (s_rho s1)"
    and len: "length (s_rho s1) = n" "length (s_gamma_fluid s1) = n" "length (s_pressure s1) = n"
      "length chi = n"
    using default_update[OF n inv b] by blast
  note o = update_fluid_other[OF u]
  let ?w = "write_checkpoint ?a s1"
  have st: "step ?a ?e s = advance ?a ?e ?w chi g" using u by (simp add: step_def)
  have tpos: "0 < s_t s + ?dt" using run_inv_t_pos[OF n inv] dt_bounds(1)[OF n] by simp
  have "case first_below 1 chi of
        None \<Rightarrow> \<exists>s'. step ?a ?e s = Fails IndexError s' \<and>
                     length (s_times s') = Suc (length (s_times s))
      | Some up \<Rightarrow> \<exists>s' rs. step ?a ?e s = Next s' \<and> run_inv n n s' \<and>
                     rs \<le> s_t s + ?dt \<and>
                     s_rshock_idx s' = argmin (map (\<lambda>x. \<bar>x - rs\<bar>) (default_grid n))"
  proof (cases "first_below 1 chi")
    case None
    then show ?thesis
      by (simp add: st advance_def Let_def write_checkpoint_arrays o)
  next
    case (Some up)
    then have up: "up < n" using first_below_Some[OF Some] len(4) by simp
    then have rpos: "0 < s_rho s1 ! up" using pos len(1) by (simp add: list_all_length)
    obtain rs where rs: "calc_shock_radius g (s_t s + ?dt) 3 = Inr rs" "rs \<le> s_t s + ?dt"
      using shock_radius_default[OF g tpos] by blast
    have ne: "default_grid n \<noteq> []" using n by (auto simp: default_grid_def)
    have fn: "find_nearest (default_grid n) rs =
        Ok (argmin (map (\<lambda>x. \<bar>x - rs\<bar>) (default_grid n)),
            default_grid n ! argmin (map (\<lambda>x. \<bar>x - rs\<bar>) (default_grid n)))"
      using ne by (simp add: find_nearest_def Let_def)
    let ?s' = "?w\<lparr>s_ells := s_ells ?w @ [s_ell ?w], s_times := s_times ?w @ [s_t ?w],
                 s_t := s_t ?w + ?dt, s_upstream := up,
                 s_ell := (1 / (s_rho s1 ! up)) powr (1 / 3),
                 s_rshock_idx := argmin (map (\<lambda>x. \<bar>x - rs\<bar>) (default_grid n))\<rparr>"
    have adv: "step ?a ?e s = Next ?s'"
      using Some up rpos rs(1) fn len(1)
      by (simp add: st advance_def Let_def write_checkpoint_arrays o)
    have lenlt: "length (s_times s) < n" by (rule run_inv_len[OF n inv lt])
    have idx: "argmin (map (\<lambda>x. \<bar>x - rs\<bar>) (default_grid n)) < n"
      using argmin_map_less[OF ne, of "\<lambda>x. \<bar>x - rs\<bar>"] by simp
    have tt: "s_t s = 1 / 100 + real (length (s_times s)) * ?dt"
      using inv by (simp add: run_inv_def)
    have tt': "s_t s + ?dt = 1 / 100 + (1 + real (length (s_times s))) * ?dt"
      by (subst tt) (simp only: distrib_right mult_1 add.assoc add.commute)
    have ri: "run_inv n n ?s'"
      unfolding run_inv_def
      using len pos rpos idx lenlt tt'
      by (simp add: write_checkpoint_arrays o)
    have ix: "s_rshock_idx ?s' = argmin (map (\<lambda>x. \<bar>x - rs\<bar>) (default_grid n))" by simp
    from adv ri rs(2) ix
    have "\<exists>s' rs. step ?a ?e s = Next s' \<and> run_inv n n s' \<and> rs \<le> s_t s + ?dt \<and>
            s_rshock_idx s' = argmin (map (\<lambda>x. \<bar>x - rs\<bar>) (default_grid n))"
      by blast
    then show ?thesis by (simp only: Some option.case)
  qed
  then show ?thesis using u g by blast
qed

lemma step_book:
  assumes "step a e s = Next s'"
  shows "s_times s' = s_times s @ [s_t s]" "s_t s' = s_t s + env_dt e"
proof -
  from assms obtain s1 chi g where u: "update_fluid a e s = Ok (s1, chi, g)"
    and ad: "advance a e (write_checkpoint a s1) chi g = Next s'"
    by (rule step_NextD)
  note o = update_fluid_other[OF u]
  show "s_times s' = s_times s @ [s_t s]"
    using advance_arrays(8)[of a e "write_checkpoint a s1" chi g s'] ad
    by (simp add: write_checkpoint_arrays o)
  show "s_t s' = s_t s + env_dt e"
    using advance_arrays(7)[of a e "write_checkpoint a s1" chi g s'] ad
    by (simp add: write_checkpoint_arrays o)
qed

lemma run_inv_default_state: "1 \<le> n \<Longrightarrow> 1 \<le> b \<Longrightarrow> run_inv n b (default_state n)"
  by (simp add: run_inv_def default_state_def list_all_iff)

lemma default_state_t [simp]: "s_t (default_state n) = 1 / 100" "s_times (default_state n) = []"
  by (simp_all add: default_state_def)

lemma evolve_default_general:
  assumes n: "1 \<le> n"
  shows "run_inv n n s \<Longrightarrow> n \<le> fuel + length (s_times s) \<Longrightarrow>
     (\<exists>s'. evolve fuel (zones_args (int n)) (default_env n) s = Finished s' \<and>
           default_tphysical \<le> s_t s' \<and> length (s_times s') \<le> n) \<or>
     (\<exists>s'. evolve fuel (zones_args (int n)) (default_env n) s = Raised IndexError s' \<and>
           length (s_times s') \<le> n)"
proof (induction fuel arbitrary: s)
  case 0
  then have "\<not> s_t s < default_tphysical" using run_inv_len[OF n "0.prems"(1)] by auto
  then show ?case using "0.prems"(1) by (simp add: run_inv_def)
next
  case (Suc fuel)
  let ?a = "zones_args (int n)" and ?e = "default_env n"
  show ?case
  proof (cases "s_t s < default_tphysical")
    case False
    then show ?thesis using Suc.prems(1) by (simp add: run_inv_def)
  next
    case True
    have lenlt: "length (s_times s) < n" by (rule run_inv_len[OF n Suc.prems(1) True])
    obtain s1 chi g where u: "update_fluid ?a ?e s = Ok (s1, chi, g)"
      and c: "case first_below 1 chi of
        None \<Rightarrow> \<exists>s'. step ?a ?e s = Fails IndexError s' \<and>
                     length (s_times s') = Suc (length (s_times s))
      | Some up \<Rightarrow> \<exists>s' rs. step ?a ?e s = Next s' \<and> run_inv n n s' \<and>
                     rs \<le> s_t s + (1 - default_r0) / real n \<and>
                     s_rshock_idx s' = argmin (map (\<lambda>x. \<bar>x - rs\<bar>) (default_grid n))"
      using default_step[OF n Suc.prems(1) order_refl True] by blast
    show ?thesis
    proof (cases "first_below 1 chi")
      case None
      then obtain s' where "step ?a ?e s = Fails IndexError s'"
        "length (s_times s') = Suc (length (s_times s))" using c by auto
      then show ?thesis using True lenlt by simp
    next
      case (Some up)
      then obtain s' where st: "step ?a ?e s = Next s'" and ri: "run_inv n n s'" using c by auto
      have "length (s_times s') = Suc (length (s_times s))" using step_book(1)[OF st] by simp
      then have "n \<le> fuel + length (s_times s')" using Suc.prems(2) by simp
      from Suc.IH[OF ri this] show ?thesis using True st by simp
    qed
  qed
qed

lemma one_zone_raises: "\<exists>s'. main (Suc fuel) (zones_args 1) = Raised IndexError s'"
proof -
  let ?a = "zones_args (int 1)" and ?e = "default_env 1" and ?s = "default_state 1"
  have i: "init (zones_args 1) = Ok (?e, ?s)" using init_zones[of 1] by simp
  have lt: "s_t ?s < default_tphysical" using tphysical_bounds(1) by simp
  have ri: "run_inv 1 1 ?s" by (rule run_inv_default_state) simp_all
  obtain s1 chi g where u: "update_fluid ?a ?e ?s = Ok (s1, chi, g)"
      and c: "case first_below 1 chi of
        None \<Rightarrow> \<exists>s'. step ?a ?e ?s = Fails IndexError s' \<and>
                     length (s_times s') = Suc (length (s_times ?s))
      | Some up \<Rightarrow> \<exists>s' rs. step ?a ?e ?s = Next s' \<and> run_inv 1 1 s' \<and>
                     rs \<le> s_t ?s + (1 - default_r0) / real 1 \<and>
                     s_rshock_idx s' = argmin (map (\<lambda>x. \<bar>x - rs\<bar>) (default_grid 1))"
    using default_step[OF _ ri order_refl lt] by auto
  have "chi = [1]"
    using update_fluid_OkD(3)[OF u] by (simp add: default_grid_def default_state_def)
  then have "first_below 1 chi = None" by simp
  then obtain s' where "step ?a ?e ?s = Fails IndexError s'" using c by auto
  then show ?thesis using i lt by (simp add: main_def)
qed

text \<open>
  C1, as the specification states it: a lookup that finds no \<open>chi < 1\<close> ends the
  loop gracefully, with the final state. With one zone and the default parameters the
  only \<open>chi\<close> is the forced 1, and the run ends with IndexError in its first pass.
\<close>

theorem one_zone_run_raises_index_error:
  "loop_raised (main 1 (zones_args 1)) = Some IndexError"
proof -
  obtain s' where "main (Suc 0) (zones_args 1) = Raised IndexError s'"
    using one_zone_raises[of 0] by blast
  then show ?thesis by simp
qed

text \<open>
  C4, as the specification states it: for any positive number of zones the loop
  terminates with \<open>t \<ge> tphysical\<close>. With one zone the run ends with IndexError in its
  first pass, whatever the bound on the passes; the loop never reaches its exit test.
\<close>

theorem one_zone_evolution_aborts:
  "loop_raised (main 4096 (zones_args 1)) = Some IndexError"
proof -
  obtain s' where "main (Suc 4095) (zones_args 1) = Raised IndexError s'"
    using one_zone_raises[of 4095] by blast
  then show ?thesis by simp
qed

lemma default_grid_last: "2 \<le> n \<Longrightarrow> default_grid n ! (n - 1) = 1"
  by (simp add: default_grid_def)

lemma root_of_power:
  fixes a :: real
  assumes "0 < a" "0 < k"
  shows "(a ^ k) powr (1 / real k) = a"
proof -
  have "(a ^ k) powr (1 / real k) = (a powr real k) powr (1 / real k)"
    using assms(1) by (simp add: powr_realpow)
  also have "\<dots> = a powr (real k * (1 / real k))" by (simp only: powr_powr)
  also have "\<dots> = a" using assms by simp
  finally show ?thesis .
qed

lemma default_grid_penult:
  assumes n: "32 \<le> n"
  shows "17 / 20 \<le> default_grid n ! (n - 2)" "default_grid n ! (n - 2) \<le> 1"
proof -
  let ?q = "real (n - 2) / real (n - 1)"
  have r0: "0 < default_r0" "default_r0 \<le> 1" using r0_pos r0_bounds(2) by simp_all
  have ne: "n - 2 \<noteq> 0" "n - 2 \<noteq> n - 1" "n - 2 < n" using n by simp_all
  have val: "default_grid n ! (n - 2) = default_r0 * (1 / default_r0) powr ?q"
    unfolding default_grid_def using ne by (simp only: nth_map_upt add_0 if_False minus_nat.diff_0)
  have "(1 / default_r0) powr ?q = default_r0 powr (- ?q)"
    by (simp add: powr_minus powr_divide inverse_eq_divide)
  then have "default_r0 * (1 / default_r0) powr ?q = default_r0 powr 1 * default_r0 powr (- ?q)"
    using r0(1) by simp
  also have "\<dots> = default_r0 powr (1 + - ?q)" by (simp only: powr_add)
  also have "1 + - ?q = 1 / real (n - 1)"
  proof -
    have "real (n - 1) = real (n - 2) + 1" using n by (simp add: of_nat_diff)
    then show ?thesis using n by (simp add: field_simps)
  qed
  finally have eq: "default_grid n ! (n - 2) = default_r0 powr (1 / real (n - 1))"
    using val by simp
  have "1 / real (n - 1) \<le> 1 / 31" using n by (simp add: field_simps)
  then have a: "default_r0 powr (1 / 31) \<le> default_r0 powr (1 / real (n - 1))"
    using r0 by (intro powr_mono') simp_all
  have "((17 / 20 :: real) ^ 31) \<le> 99 / 10000" by (simp add: power_divide)
  then have "((17 / 20 :: real) ^ 31) \<le> default_r0" using r0_bounds(1) by linarith
  then have "((17 / 20 :: real) ^ 31) powr (1 / 31) \<le> default_r0 powr (1 / 31)"
    by (intro powr_mono2) simp_all
  moreover have "((17 / 20 :: real) ^ 31) powr (1 / real 31) = 17 / 20"
    by (rule root_of_power) simp_all
  ultimately have b: "17 / 20 \<le> default_r0 powr (1 / 31)" by simp
  show "17 / 20 \<le> default_grid n ! (n - 2)" using a b eq by linarith
  have "default_r0 powr (1 / real (n - 1)) \<le> 1"
    using r0 by (intro powr_le1) simp_all
  then show "default_grid n ! (n - 2) \<le> 1" using eq by simp
qed

lemma nearest_not_last:
  assumes n: "32 \<le> n" and rs: "rs \<le> 37 / 40"
  shows "argmin (map (\<lambda>x. \<bar>x - rs\<bar>) (default_grid n)) < n - 1"
proof -
  let ?xs = "map (\<lambda>x. \<bar>x - rs\<bar>) (default_grid n)"
  have l: "length ?xs = n" by simp
  have p: "17 / 20 \<le> default_grid n ! (n - 2)" "default_grid n ! (n - 2) \<le> 1"
    using default_grid_penult[OF n] by simp_all
  have last: "default_grid n ! (n - 1) = 1" using n by (intro default_grid_last) simp
  have "\<bar>default_grid n ! (n - 2) - rs\<bar> \<le> \<bar>1 - rs\<bar>" using p rs by linarith
  then have "?xs ! (n - 2) \<le> ?xs ! (length ?xs - 1)" using n last by simp
  moreover have "n - 2 < length ?xs - 1" using n by simp
  ultimately have "argmin ?xs < length ?xs - 1" by (rule argmin_not_last[rotated])
  then show ?thesis by simp
qed

lemma default_step_big:
  assumes n: "32 \<le> n" and inv: "run_inv n (n - 1) s" and lt: "s_t s < default_tphysical"
  shows "\<exists>s'. step (zones_args (int n)) (default_env n) s = Next s' \<and> run_inv n (n - 1) s'"
proof -
  let ?a = "zones_args (int n)" and ?e = "default_env n"
  have n1: "1 \<le> n" using n by simp
  obtain s1 chi g where u: "update_fluid ?a ?e s = Ok (s1, chi, g)" and g: "0 < g"
      and c: "case first_below 1 chi of
        None \<Rightarrow> \<exists>s'. step ?a ?e s = Fails IndexError s' \<and>
                     length (s_times s') = Suc (length (s_times s))
      | Some up \<Rightarrow> \<exists>s' rs. step ?a ?e s = Next s' \<and> run_inv n n s' \<and>
                     rs \<le> s_t s + (1 - default_r0) / real n \<and>
                     s_rshock_idx s' = argmin (map (\<lambda>x. \<bar>x - rs\<bar>) (default_grid n))"
    using default_step[OF n1 inv _ lt] by auto
  have t: "0 < s_t s" "s_t s < 1"
    using run_inv_t_pos[OF n1 inv] lt tphysical_bounds(2) by simp_all
  have idx: "s_rshock_idx s < n - 1" using inv by (simp add: run_inv_def)
  have chi: "chi = (map (\<lambda>x. (1 + 2 * (3 + 1) * g ^ 2) * (1 - x / s_t s)) (default_grid n))[s_rshock_idx s := 1]"
    using update_fluid_OkD(3)[OF u] by simp
  have "chi ! (n - 1) = (1 + 2 * (3 + 1) * g ^ 2) * (1 - 1 / s_t s)"
    using idx n default_grid_last[of n] by (simp add: chi)
  moreover have "(1 + 2 * (3 + 1) * g ^ 2) * (1 - 1 / s_t s) < 0"
    using t by (intro mult_pos_neg) (simp_all add: add_pos_nonneg)
  ultimately have "chi ! (n - 1) < 1" by simp
  moreover have "n - 1 < length chi" using n chi by simp
  ultimately have "first_below 1 chi \<noteq> None"
    by (auto simp: first_below_None list_all_length)
  then obtain up where "first_below 1 chi = Some up" by auto
  then obtain s' rs where st: "step ?a ?e s = Next s'" and ri: "run_inv n n s'"
    and rs: "rs \<le> s_t s + (1 - default_r0) / real n"
    and ix: "s_rshock_idx s' = argmin (map (\<lambda>x. \<bar>x - rs\<bar>) (default_grid n))"
    using c by auto
  have "(1 - default_r0) / real n \<le> 1 / real n" by (rule dt_bounds(2)[OF n1])
  also have "\<dots> \<le> 1 / 32" using n by (simp add: field_simps)
  finally have "rs \<le> 37 / 40" using rs lt tphysical_bounds(2) by linarith
  then have "s_rshock_idx s' < n - 1" using nearest_not_last[OF n] ix by simp
  then have "run_inv n (n - 1) s'" using ri by (simp add: run_inv_def)
  then show ?thesis using st by blast
qed

lemma evolve_default_big:
  assumes n: "32 \<le> n"
    and keep: "\<And>s s'. Q s \<Longrightarrow> run_inv n (n - 1) s \<Longrightarrow> s_t s < default_tphysical \<Longrightarrow>
                 step (zones_args (int n)) (default_env n) s = Next s' \<Longrightarrow> Q s'"
  shows "run_inv n (n - 1) s \<Longrightarrow> Q s \<Longrightarrow> n \<le> fuel + length (s_times s) \<Longrightarrow>
     \<exists>s'. evolve fuel (zones_args (int n)) (default_env n) s = Finished s' \<and>
          default_tphysical \<le> s_t s' \<and> length (s_times s') \<le> n \<and> Q s' \<and>
          run_inv n (n - 1) s'"
proof (induction fuel arbitrary: s)
  case 0
  have n1: "1 \<le> n" using n by simp
  have "\<not> s_t s < default_tphysical" using run_inv_len[OF n1 "0.prems"(1)] "0.prems"(3) by auto
  then show ?case using "0.prems"(1,2) by (simp add: run_inv_def)
next
  case (Suc fuel)
  have n1: "1 \<le> n" using n by simp
  show ?case
  proof (cases "s_t s < default_tphysical")
    case False
    then show ?thesis using Suc.prems(1,2) by (simp add: run_inv_def)
  next
    case True
    obtain s' where st: "step (zones_args (int n)) (default_env n) s = Next s'"
      and ri: "run_inv n (n - 1) s'"
      using default_step_big[OF n Suc.prems(1) True] by blast
    have q: "Q s'" by (rule keep[OF Suc.prems(2,1) True st])
    have "length (s_times s') = Suc (length (s_times s))" using step_book(1)[OF st] by simp
    then have "n \<le> fuel + length (s_times s')" using Suc.prems(3) by simp
    from Suc.IH[OF ri q this] show ?thesis using True st by simp
  qed
qed

text \<open>
  C4, amended: with the default parameters and \<open>n \<ge> 1\<close> zones the loop makes at most
  \<open>n\<close> passes and ends either with \<open>t \<ge> tphysical = (17 / (8 pi))^(1/3)\<close> or with the
  IndexError of the upstream lookup; for \<open>n \<ge> 32\<close> it ends with \<open>t \<ge> tphysical\<close>. The
  passes are counted by the list \<open>times\<close>, which grows by one entry per pass.
\<close>

theorem evolution_loop_terminates:
  assumes "1 \<le> n" and "n \<le> fuel"
  shows "((\<exists>s. main fuel (zones_args (int n)) = Finished s \<and> default_tphysical \<le> s_t s \<and>
               length (s_times s) \<le> n) \<or>
          (\<exists>s. main fuel (zones_args (int n)) = Raised IndexError s \<and> length (s_times s) \<le> n)) \<and>
         (32 \<le> n \<longrightarrow>
            (\<exists>s. main fuel (zones_args (int n)) = Finished s \<and> default_tphysical \<le> s_t s \<and>
                 length (s_times s) \<le> n))"
proof (intro conjI impI)
  have i: "init (zones_args (int n)) = Ok (default_env n, default_state n)"
    by (rule init_zones[OF assms(1)])
  have f: "n \<le> fuel + length (s_times (default_state n))" using assms(2) by simp
  show "(\<exists>s. main fuel (zones_args (int n)) = Finished s \<and> default_tphysical \<le> s_t s \<and>
               length (s_times s) \<le> n) \<or>
          (\<exists>s. main fuel (zones_args (int n)) = Raised IndexError s \<and> length (s_times s) \<le> n)"
    using evolve_default_general[OF assms(1) run_inv_default_state[OF assms(1) assms(1)] f] i
    by (simp add: main_def)
  assume big: "32 \<le> n"
  have ri: "run_inv n (n - 1) (default_state n)"
    using big by (intro run_inv_default_state) simp_all
  have "\<exists>s'. evolve fuel (zones_args (int n)) (default_env n) (default_state n) = Finished s' \<and>
          default_tphysical \<le> s_t s' \<and> length (s_times s') \<le> n \<and> True \<and>
          run_inv n (n - 1) s'"
    by (rule evolve_default_big[OF big _ ri _ f, where Q = "\<lambda>s. True"]) simp_all
  then obtain s' where "evolve fuel (zones_args (int n)) (default_env n) (default_state n) = Finished s'"
    "default_tphysical \<le> s_t s'" "length (s_times s') \<le> n" by blast
  then show "\<exists>s. main fuel (zones_args (int n)) = Finished s \<and> default_tphysical \<le> s_t s \<and>
                 length (s_times s) \<le> n"
    using i by (simp add: main_def)
qed

section \<open>Checkpoints of the default run\<close>

lemma step_files:
  assumes "step a e s = Next s'"
  shows "s_interval s \<le> s_t s \<Longrightarrow>
           \<exists>c. s_files s' = s_files s @ [c] \<and> chk_index c = s_i s \<and> chk_current_time c = s_t s \<and>
               s_i s' = Suc (s_i s) \<and> s_interval s' = s_interval s + arg_tinterval a"
    and "\<not> s_interval s \<le> s_t s \<Longrightarrow>
           s_files s' = s_files s \<and> s_i s' = s_i s \<and> s_interval s' = s_interval s"
proof -
  from assms obtain s1 chi g where u: "update_fluid a e s = Ok (s1, chi, g)"
    and ad: "advance a e (write_checkpoint a s1) chi g = Next s'"
    by (rule step_NextD)
  note o = update_fluid_other[OF u]
  note v = advance_arrays(4-6)[of a e "write_checkpoint a s1" chi g s']
  show "\<exists>c. s_files s' = s_files s @ [c] \<and> chk_index c = s_i s \<and> chk_current_time c = s_t s \<and>
               s_i s' = Suc (s_i s) \<and> s_interval s' = s_interval s + arg_tinterval a"
    if "s_interval s \<le> s_t s"
    using that v ad o by (simp add: write_checkpoint_def)
  show "s_files s' = s_files s \<and> s_i s' = s_i s \<and> s_interval s' = s_interval s"
    if "\<not> s_interval s \<le> s_t s"
    using that v ad o by (simp add: write_checkpoint_def)
qed

lemma chk_inv_step:
  assumes n: "32 \<le> n" and q: "chk_inv ((1 - default_r0) / real n) s"
    and inv: "run_inv n b s" and lt: "s_t s < default_tphysical"
    and st: "step (zones_args (int n)) (default_env n) s = Next s'"
  shows "chk_inv ((1 - default_r0) / real n) s'"
proof -
  let ?dt = "(1 - default_r0) / real n"
  have n1: "1 \<le> n" using n by simp
  have dt: "0 < ?dt" "?dt \<le> 1 / 10"
  proof -
    show "0 < ?dt" by (rule dt_bounds(1)[OF n1])
    have "?dt \<le> 1 / real n" by (rule dt_bounds(2)[OF n1])
    also have "\<dots> \<le> 1 / 10" using n by (simp add: field_simps)
    finally show "?dt \<le> 1 / 10" .
  qed
  have bk: "s_times s' = s_times s @ [s_t s]" "s_t s' = s_t s + ?dt"
    using step_book[OF st] by simp_all
  have t0: "s_times s = [] \<Longrightarrow> s_t s = 1 / 100" using inv by (simp add: run_inv_def)
  note q' = q[unfolded chk_inv_def]
  show ?thesis
  proof (cases "s_interval s \<le> s_t s")
    case True
    then obtain c where c: "s_files s' = s_files s @ [c]" "chk_index c = s_i s"
      "chk_current_time c = s_t s" "s_i s' = Suc (s_i s)" "s_interval s' = s_interval s + 1 / 10"
      using step_files(1)[OF st] by auto
    have new: "real (chk_index c) / 10 \<le> chk_current_time c \<and>
                   (chk_index c = 0 \<and> chk_current_time c = 1 / 100 \<or>
                    0 < chk_index c \<and> chk_current_time c - ?dt < real (chk_index c) / 10)"
    proof (cases "s_times s = []")
      case True
      then show ?thesis using q' c t0 by simp
    next
      case False
      then show ?thesis using q' c \<open>s_interval s \<le> s_t s\<close> by auto
    qed
    have up: "s_t s < real (s_i s) / 10 + 1 / 10"
    proof (cases "s_times s = []")
      case True
      then show ?thesis using t0 by simp
    next
      case False
      then show ?thesis using q' dt by auto
    qed
    show ?thesis
      unfolding chk_inv_def using q' c new up True lt bk
      by (simp add: add_divide_distrib)
  next
    case False
    then have c: "s_files s' = s_files s" "s_i s' = s_i s" "s_interval s' = s_interval s"
      using step_files(2)[OF st] by auto
    have ne: "s_times s \<noteq> []"
    proof
      assume e: "s_times s = []"
      then have "s_interval s = 0" using q' by simp
      then show False using False t0[OF e] by simp
    qed
    show ?thesis
      unfolding chk_inv_def using q' c ne False lt bk dt by auto
  qed
qed

lemma default_args_zones: "default_args = zones_args 4096"
  by (simp add: zones_args_def default_args_def)

lemma chk_inv_default_state: "chk_inv dt (default_state n)"
  by (simp add: chk_inv_def default_state_def)

lemma default_run_final:
  assumes "4096 \<le> fuel"
  shows "\<exists>s. evolve fuel (zones_args 4096) (default_env 4096) (default_state 4096) = Finished s \<and>
           s_i s = 9 \<and> chk_inv ((1 - default_r0) / 4096) s"
proof -
  let ?n = "4096 :: nat"
  let ?dt = "(1 - default_r0) / real ?n"
  have n: "32 \<le> ?n" by simp
  have ri: "run_inv ?n (?n - 1) (default_state ?n)" by (intro run_inv_default_state) simp_all
  have f: "?n \<le> fuel + length (s_times (default_state ?n))" using assms by simp
  have "\<exists>s'. evolve fuel (zones_args (int ?n)) (default_env ?n) (default_state ?n) = Finished s' \<and>
          default_tphysical \<le> s_t s' \<and> length (s_times s') \<le> ?n \<and> chk_inv ?dt s' \<and>
          run_inv ?n (?n - 1) s'"
  proof (rule evolve_default_big[where Q = "chk_inv ?dt", OF n _ ri chk_inv_default_state f])
    fix s s'
    assume "chk_inv ?dt s" "run_inv ?n (?n - 1) s" "s_t s < default_tphysical"
      "step (zones_args (int ?n)) (default_env ?n) s = Next s'"
    then show "chk_inv ?dt s'" by (rule chk_inv_step[OF n])
  qed
  then obtain s where ev: "evolve fuel (zones_args (int ?n)) (default_env ?n) (default_state ?n) = Finished s"
    and t: "default_tphysical \<le> s_t s" and q: "chk_inv ?dt s" and inv: "run_inv ?n (?n - 1) s"
    by blast
  have ne: "s_times s \<noteq> []"
  proof
    assume "s_times s = []"
    then have "s_t s = 1 / 100" using inv by (simp add: run_inv_def)
    then show False using t tphysical_bounds(1) by simp
  qed
  have dt: "?dt \<le> 1 / 4096" using dt_bounds(2)[of ?n] by simp
  have b: "real (s_i s) / 10 - 1 / 10 \<le> s_t s - ?dt" "s_t s - ?dt < real (s_i s) / 10"
    "s_t s - ?dt < default_tphysical"
    using q ne by (simp_all add: chk_inv_def)
  have "real (s_i s) < 10" using b(1,3) tphysical_bounds(2) by linarith
  moreover have "8 < real (s_i s)" using b(2) t tphysical_bounds(1) dt by linarith
  ultimately have "s_i s = 9" by linarith
  then show ?thesis using ev q by auto
qed

text \<open>
  C2: the default run (4096 zones) ends normally; its checkpoint files have the indices
  0, 1, ..., 8 in this order, their number is \<open>floor((tphysical - t0) / tinterval) + 1\<close>,
  file 0 is written at \<open>t0\<close>, and file \<open>j > 0\<close> is written at the first pass whose time
  has reached \<open>j * tinterval\<close> (the time of the pass before was still below it).
\<close>

theorem default_run_checkpoints:
  assumes "4096 \<le> fuel"
  shows "\<exists>e s0 s. init default_args = Ok (e, s0) \<and> main fuel default_args = Finished s \<and>
     map chk_index (s_files s) = [0..<9] \<and>
     int (length (s_files s)) =
       \<lfloor>(env_tphysical e - arg_t0 default_args) / arg_tinterval default_args\<rfloor> + 1 \<and>
     list_all (\<lambda>c. real (chk_index c) * arg_tinterval default_args \<le> chk_current_time c \<and>
                   (chk_index c = 0 \<and> chk_current_time c = arg_t0 default_args \<or>
                    0 < chk_index c \<and>
                    chk_current_time c - env_dt e < real (chk_index c) * arg_tinterval default_args))
              (s_files s)"
proof -
  have i: "init default_args = Ok (default_env 4096, default_state 4096)"
    using init_zones[of 4096] by (simp add: default_args_zones)
  obtain s where ev: "evolve fuel (zones_args 4096) (default_env 4096) (default_state 4096) = Finished s"
    and n9: "s_i s = 9" and q: "chk_inv ((1 - default_r0) / 4096) s"
    using default_run_final[OF assms] by blast
  have m: "main fuel default_args = Finished s"
    using i ev by (simp add: main_def default_args_zones[symmetric])
  have idx: "map chk_index (s_files s) = [0..<9]" using q n9 by (simp add: chk_inv_def)
  have "length (map chk_index (s_files s)) = 9" by (simp only: idx) simp
  then have len: "length (s_files s) = 9" by simp
  have fl: "\<lfloor>(default_tphysical - 1 / 100) / (1 / 10)\<rfloor> = 8"
    using tphysical_bounds by (intro floor_unique) simp_all
  have la: "list_all (\<lambda>c. real (chk_index c) / 10 \<le> chk_current_time c \<and>
                   (chk_index c = 0 \<and> chk_current_time c = 1 / 100 \<or>
                    0 < chk_index c \<and> chk_current_time c - (1 - default_r0) / 4096 < real (chk_index c) / 10))
              (s_files s)"
    using q by (simp add: chk_inv_def)
  have sel: "arg_t0 default_args = 1 / 100" "arg_tinterval default_args = 1 / 10"
    by (simp_all add: default_args_def)
  show ?thesis
    using i m idx len fl la by (simp add: sel)
qed

text \<open>
  C2, an instance: a bound of 4096 passes.
\<close>

theorem default_run_checkpoints_witness:
  "(4096 :: nat) \<le> 4096 \<and>
   (\<exists>e s0 s. init default_args = Ok (e, s0) \<and> main 4096 default_args = Finished s \<and>
     map chk_index (s_files s) = [0..<9] \<and>
     int (length (s_files s)) =
       \<lfloor>(env_tphysical e - arg_t0 default_args) / arg_tinterval default_args\<rfloor> + 1 \<and>
     list_all (\<lambda>c. real (chk_index c) * arg_tinterval default_args \<le> chk_current_time c \<and>
                   (chk_index c = 0 \<and> chk_current_time c = arg_t0 default_args \<or>
                    0 < chk_index c \<and>
                    chk_current_time c - env_dt e < real (chk_index c) * arg_tinterval default_args))
              (s_files s))"
  using default_run_checkpoints[of 4096] by simp

text \<open>
  C4, an instance: 4096 zones.
\<close>

theorem evolution_loop_terminates_witness:
  "(1 :: nat) \<le> 4096 \<and> (4096 :: nat) \<le> 4096 \<and>
   ((\<exists>s. main 4096 (zones_args (int 4096)) = Finished s \<and> default_tphysical \<le> s_t s \<and>
               length (s_times s) \<le> 4096) \<or>
    (\<exists>s. main 4096 (zones_args (int 4096)) = Raised IndexError s \<and> length (s_times s) \<le> 4096)) \<and>
   (32 :: nat) \<le> 4096 \<and>
   (\<exists>s. main 4096 (zones_args (int 4096)) = Finished s \<and> default_tphysical \<le> s_t s \<and>
                 length (s_times s) \<le> 4096)"
  using evolution_loop_terminates[of 4096 4096] by simp

section \<open>Instances\<close>

lemma one_zone_update:
  "\<exists>s1 g. update_fluid (zones_args 1) (default_env 1) (default_state 1) = Ok (s1, [1], g)"
proof -
  have ri: "run_inv 1 1 (default_state 1)" by (rule run_inv_default_state) simp_all
  obtain s1 chi g where u: "update_fluid (zones_args (int 1)) (default_env 1) (default_state 1) = Ok (s1, chi, g)"
    using default_update[OF _ ri order_refl] by auto
  have "chi = [1]"
    using update_fluid_OkD(3)[OF u] by (simp add: default_grid_def default_state_def)
  then show ?thesis using u by auto
qed

text \<open>
  C1, an instance: the first pass of the default run on one zone, where \<open>chi = [1]\<close>.
\<close>

theorem upstream_lookup_failure_raises_witness:
  "\<exists>s1 g. s_t (default_state 1) < env_tphysical (default_env 1) \<and>
     update_fluid (zones_args 1) (default_env 1) (default_state 1) = Ok (s1, [1], g) \<and>
     first_below 1 [1] = None \<and>
     evolve (Suc 0) (zones_args 1) (default_env 1) (default_state 1) =
       Raised IndexError
         ((write_checkpoint (zones_args 1) s1)
            \<lparr>s_ells := s_ells (default_state 1) @ [s_ell (default_state 1)],
             s_times := s_times (default_state 1) @ [s_t (default_state 1)],
             s_t := s_t (default_state 1) + env_dt (default_env 1)\<rparr>)"
proof -
  obtain s1 g where u: "update_fluid (zones_args 1) (default_env 1) (default_state 1) = Ok (s1, [1], g)"
    using one_zone_update by blast
  have lt: "s_t (default_state 1) < env_tphysical (default_env 1)"
    using tphysical_bounds(1) by simp
  have fb: "first_below 1 [1] = None" by simp
  show ?thesis
    using upstream_lookup_failure_raises[OF lt u fb, of 0] lt u fb by blast
qed

text \<open>
  C3, an instance: the first pass of the default run on two zones, at the outer grid
  point.
\<close>

theorem shocked_region_update_witness:
  "\<exists>s' chi g.
     update_fluid (zones_args 2) (default_env 2) (default_state 2) = Ok (s', chi, g) \<and>
     arrays_fit (default_env 2) (default_state 2) \<and> (1 :: nat) < length (env_r (default_env 2)) \<and>
     as_float (calc_shock_lorentz_gamma (s_ell (default_state 2)) (s_t (default_state 2))
                 (arg_k (zones_args 2))) = Ok g \<and>
     chi ! s_rshock_idx (default_state 2) = 1 \<and>
     (1 :: nat) \<noteq> s_rshock_idx (default_state 2) \<and>
     calc_chi (s_ell (default_state 2)) (env_r (default_env 2) ! 1) (s_t (default_state 2))
        (arg_bmk_m (zones_args 2)) (arg_k (zones_args 2)) = Ok (chi ! 1) \<and>
     (if 1 \<le> chi ! 1 \<and> chi ! 1 \<le> g ^ 2 / 2
      then s_rho s' ! 1 = calc_rho g (chi ! 1) (arg_rho0 (zones_args 2)) (arg_k (zones_args 2)) \<and>
           s_gamma_fluid s' ! 1 = calc_gamma_fluid g (chi ! 1) \<and>
           s_pressure s' ! 1 = calc_pressure g (chi ! 1) (arg_rho0 (zones_args 2)) (arg_k (zones_args 2))
      else s_rho s' ! 1 = s_rho (default_state 2) ! 1 \<and>
           s_gamma_fluid s' ! 1 = s_gamma_fluid (default_state 2) ! 1 \<and>
           s_pressure s' ! 1 = s_pressure (default_state 2) ! 1)"
proof -
  have ri: "run_inv 2 2 (default_state 2)" by (rule run_inv_default_state) simp_all
  obtain s' chi g where u: "update_fluid (zones_args (int 2)) (default_env 2) (default_state 2) = Ok (s', chi, g)"
    using default_update[OF _ ri order_refl] by auto
  then have u': "update_fluid (zones_args 2) (default_env 2) (default_state 2) = Ok (s', chi, g)" by simp
  have fit: "arrays_fit (default_env 2) (default_state 2)"
    by (simp add: arrays_fit_def default_state_def)
  have i: "(1 :: nat) < length (env_r (default_env 2))" by simp
  have ix: "(1 :: nat) \<noteq> s_rshock_idx (default_state 2)" by (simp add: default_state_def)
  show ?thesis
    using shocked_region_update[OF u' fit i] u' fit i ix by blast
qed

lemma powr_three_halves_sq:
  fixes x :: real
  assumes "0 < x"
  shows "(x powr (3 / 2)) ^ 2 = x ^ 3"
proof -
  have "(x powr (3 / 2)) ^ 2 = x powr (3 / 2) * x powr (3 / 2)" by (simp add: power2_eq_square)
  also have "\<dots> = x powr (3 / 2 + 3 / 2)" by (simp only: powr_add)
  also have "\<dots> = x powr 3" by simp
  also have "\<dots> = x ^ 3" using assms by simp
  finally show ?thesis .
qed

lemma gamma_sq:
  assumes "k \<le> 17 / 4" "0 < t" "0 < l"
  shows "\<exists>g. as_float (calc_shock_lorentz_gamma l t k) = Ok g \<and>
             g ^ 2 = (17 - 4 * k) / (8 * pi) * (l / t) ^ 3"
proof -
  let ?g = "((17 - 4 * k) / 8 / pi) powr (1 / 2) * (l / t) powr (3 / 2)"
  have a: "as_float (calc_shock_lorentz_gamma l t k) = Ok ?g"
    using assms by (intro as_float_gamma) simp_all
  have nn: "0 \<le> (17 - 4 * k) / 8 / pi" using assms(1) by simp
  have "(((17 - 4 * k) / 8 / pi) powr (1 / 2)) ^ 2 = (17 - 4 * k) / 8 / pi"
    using nn by (simp add: powr_half_sqrt)
  moreover have "((l / t) powr (3 / 2)) ^ 2 = (l / t) ^ 3"
    using assms by (intro powr_three_halves_sq) simp
  ultimately have "?g ^ 2 = (17 - 4 * k) / (8 * pi) * (l / t) ^ 3"
    by (simp add: power_mult_distrib)
  then show ?thesis using a by blast
qed

lemma init_variant:
  fixes k \<tau> :: real
  assumes k: "k \<le> 17 / 4" and t: "0 < \<tau>" and big: "pi * \<tau> ^ 3 < 17 - 4 * k"
  shows "\<exists>e s. init (default_args\<lparr>arg_k := k, arg_t0 := \<tau>\<rparr>) = Ok (e, s) \<and> s_t s = \<tau> \<and> s_ell s = 1 \<and>
           env_tphysical e = ((17 - 4 * k) / (8 * pi)) powr (1 / 3)"
proof -
  let ?a = "default_args\<lparr>arg_k := k, arg_t0 := \<tau>\<rparr>"
  have sel: "arg_e0 ?a = 1" "arg_rho0 ?a = 1" "arg_t0 ?a = \<tau>" "arg_nzones ?a = 4096"
    "arg_rmax ?a = 1" "arg_bmk_m ?a = 3" "arg_k ?a = k" "arg_tinterval ?a = 1 / 10"
    by (simp_all add: default_args_def)
  define g0 where "g0 = ((17 - 4 * arg_k ?a) / 8 / pi) powr (1 / 2) *
             ((arg_e0 ?a / arg_rho0 ?a) powr (1 / 3) / arg_t0 ?a) powr (3 / 2)"
  have g0: "g0 = ((17 - 4 * k) / 8 / pi) powr (1 / 2) * (1 / \<tau>) powr (3 / 2)"
    unfolding g0_def by (simp add: sel)
  obtain g where g: "as_float (calc_shock_lorentz_gamma 1 \<tau> k) = Ok g"
    and gsq: "g ^ 2 = (17 - 4 * k) / (8 * pi) * (1 / \<tau>) ^ 3"
    using gamma_sq[OF k t, of 1] by auto
  have "as_float (calc_shock_lorentz_gamma 1 \<tau> k) = Ok g0"
    unfolding g0 using k t by (intro as_float_gamma) simp_all
  with g have "g0 = g" by simp
  with gsq have sq: "g0 ^ 2 = (17 - 4 * k) / (8 * pi) * (1 / \<tau>) ^ 3" by simp
  have t3: "0 < \<tau> ^ 3" using t by simp
  have "8 * g0 ^ 2 = (17 - 4 * k) / (pi * \<tau> ^ 3)"
  proof -
    have "8 * ((17 - 4 * k) / (8 * pi) * (1 / \<tau>) ^ 3) = 8 * (17 - 4 * k) / (8 * (pi * \<tau> ^ 3))"
      by (simp add: power_divide)
    also have "\<dots> = (17 - 4 * k) / (pi * \<tau> ^ 3)"
      by (rule mult_divide_mult_cancel_left) simp
    finally show ?thesis by (simp only: sq)
  qed
  moreover have "1 < (17 - 4 * k) / (pi * \<tau> ^ 3)"
    using big t3 by (simp add: less_divide_eq)
  ultimately have one: "1 < 8 * g0 ^ 2" by simp
  have b8: "2 * (arg_bmk_m ?a + 1) * g0 ^ 2 = 8 * g0 ^ 2" by (simp add: sel)
  have big': "1 < 2 * (arg_bmk_m ?a + 1) * g0 ^ 2" using one by (simp only: b8)
  then have base: "2 * (arg_bmk_m ?a + 1) * g0 ^ 2 \<noteq> 0" by linarith
  have "inverse (2 * (arg_bmk_m ?a + 1) * g0 ^ 2) < inverse 1"
    using big' by (intro less_imp_inverse_less) simp_all
  then have "0 < 1 - inverse (2 * (arg_bmk_m ?a + 1) * g0 ^ 2)" by simp
  moreover have "0 < arg_t0 ?a" using t by (simp add: sel)
  ultimately have r0: "0 < arg_t0 ?a * (1 - inverse (2 * (arg_bmk_m ?a + 1) * g0 ^ 2))"
    by (rule mult_pos_pos[rotated])
  have d: "arg_rho0 ?a \<noteq> 0" "0 \<le> arg_e0 ?a / arg_rho0 ?a" "arg_k ?a \<le> 17 / 4" "0 < arg_t0 ?a"
    "0 < arg_rmax ?a" "1 \<le> arg_nzones ?a"
    using k t by (simp_all add: sel)
  note eq = init_Ok[of ?a, folded g0_def, OF d(1-4) base r0 d(5,6)]
  have ti: "arg_tinterval ?a \<noteq> 0" by (simp add: sel)
  have e1: "(arg_e0 ?a / arg_rho0 ?a) powr (1 / 3) = 1" by (simp add: sel)
  show ?thesis
    apply (subst eq)
    apply (simp only: ti if_False)
    apply (intro exI conjI)
       apply (rule refl)
      apply (simp only: state.select_convs sel)
     apply (simp only: state.select_convs e1)
    apply (simp add: sel)
    done
qed

lemma eighth_pi_bounds: "5 / 128 \<le> 1 / (8 * pi)" "1 / (8 * pi) \<le> 1 / 24"
proof -
  have "8 * pi \<le> 128 / 5" using pi_le_16_5 by simp
  then have "1 / (128 / 5) \<le> 1 / (8 * pi)" by (intro divide_left_mono) simp_all
  then show "5 / 128 \<le> 1 / (8 * pi)" by simp
  have "24 \<le> 8 * pi" using pi_ge_3 by simp
  then show "1 / (8 * pi) \<le> 1 / 24" by (intro divide_left_mono) simp_all
qed

text \<open>
  C9, an instance: the default parameters with \<open>ell = 1\<close> at \<open>t = 4/5\<close>, where
  \<open>g^2 = 17 / (8 pi) * (5/4)^3 < 2\<close>.
\<close>

theorem subcritical_step_is_no_op_witness:
  "\<exists>g. as_float (calc_shock_lorentz_gamma (s_ell ((default_state 2)\<lparr>s_t := 4 / 5\<rparr>))
                    (s_t ((default_state 2)\<lparr>s_t := 4 / 5\<rparr>)) (arg_k default_args)) = Ok g \<and>
        s_rshock_idx ((default_state 2)\<lparr>s_t := 4 / 5\<rparr>) < length (env_r (default_env 2)) \<and>
        arg_k default_args \<noteq> 4 \<and> g ^ 2 / 2 < 1 \<and>
        (\<exists>chi. update_fluid default_args (default_env 2) ((default_state 2)\<lparr>s_t := 4 / 5\<rparr>) =
                  Ok ((default_state 2)\<lparr>s_t := 4 / 5\<rparr>, chi, g) \<and>
               chi ! s_rshock_idx ((default_state 2)\<lparr>s_t := 4 / 5\<rparr>) = 1 \<and>
               \<not> (1 \<le> chi ! s_rshock_idx ((default_state 2)\<lparr>s_t := 4 / 5\<rparr>) \<and>
                  chi ! s_rshock_idx ((default_state 2)\<lparr>s_t := 4 / 5\<rparr>) \<le> g ^ 2 / 2) \<and>
               list_all (\<lambda>b. \<not> b) (smask chi (g ^ 2 / 2)))"
proof -
  let ?s = "(default_state 2)\<lparr>s_t := 4 / 5\<rparr>"
  have k: "arg_k default_args = 0" by (simp add: default_args_def)
  obtain g where g: "as_float (calc_shock_lorentz_gamma 1 (4 / 5) 0) = Ok g"
    and sq: "g ^ 2 = (17 - 4 * 0) / (8 * pi) * (1 / (4 / 5)) ^ 3"
    using gamma_sq[of 0 "4 / 5" 1] by auto
  have "g ^ 2 = 17 / (8 * pi) * (125 / 64)" using sq by (simp add: power3_eq_cube)
  also have "\<dots> \<le> 17 / 24 * (125 / 64)"
    using ratio_bounds(2) by (intro mult_right_mono) simp_all
  finally have small: "g ^ 2 / 2 < 1" by simp
  have g': "as_float (calc_shock_lorentz_gamma (s_ell ?s) (s_t ?s) (arg_k default_args)) = Ok g"
    using g by (simp add: k default_state_def)
  have idx: "s_rshock_idx ?s < length (env_r (default_env 2))" by (simp add: default_state_def)
  have k4: "arg_k default_args \<noteq> 4" by (simp add: k)
  show ?thesis
    using subcritical_step_is_no_op[OF g' idx k4 small] g' idx k4 small by blast
qed

text \<open>
  C9, as the specification states it: whenever \<open>chi_critical < 1\<close> the step is a silent
  no-op. With \<open>k = 4\<close> and \<open>t0 = 3/10\<close> (the other arguments at their defaults) the loop
  is entered with \<open>ell = 1\<close>, \<open>t = 3/10\<close> and \<open>chi_critical = 1000 / (432 pi) < 1\<close>, and
  the first pass raises ZeroDivisionError in \<open>calc_rho\<close> (line 131).
\<close>

theorem subcritical_step_raises_at_k4:
  "loop_raised (main 1 (default_args\<lparr>arg_k := 4, arg_t0 := 3 / 10\<rparr>)) = Some ZeroDivisionError \<and>
   as_float (calc_shock_lorentz_gamma 1 (3 / 10) 4) = Ok (sqrt (1 / (8 * pi)) * (10 / 3) powr (3 / 2)) \<and>
   (sqrt (1 / (8 * pi)) * (10 / 3) powr (3 / 2)) ^ 2 / 2 < 1"
proof -
  let ?a = "default_args\<lparr>arg_k := 4, arg_t0 := 3 / 10\<rparr>"
  let ?g = "sqrt (1 / (8 * pi)) * (10 / 3) powr (3 / 2)"
  have "pi * (3 / 10) ^ 3 \<le> 16 / 5 * (3 / 10) ^ 3" using pi_le_16_5 by (intro mult_right_mono) simp_all
  then have big: "pi * (3 / 10) ^ 3 < 17 - 4 * 4" by (simp add: power3_eq_cube)
  obtain e s where i: "init ?a = Ok (e, s)" and st: "s_t s = 3 / 10" and sl: "s_ell s = 1"
    and tp: "env_tphysical e = ((17 - 4 * 4) / (8 * pi)) powr (1 / 3)"
    using init_variant[of 4 "3 / 10", OF _ _ big] by auto
  have "(33 / 100 :: real) ^ 3 \<le> 5 / 128" by (simp add: power3_eq_cube)
  then have "(33 / 100 :: real) ^ 3 \<le> 1 / (8 * pi)" using eighth_pi_bounds(1) by linarith
  then have "33 / 100 \<le> (1 / (8 * pi)) powr (1 / 3)" by (intro cube_root_bounds(1)) simp_all
  then have lt: "s_t s < env_tphysical e" by (simp add: st tp)
  have g: "as_float (calc_shock_lorentz_gamma 1 (3 / 10) 4) = Ok ?g"
  proof -
    have "(1 / (8 * pi)) powr (1 / 2) = sqrt (1 / (8 * pi))" by (intro powr_half_sqrt) simp
    then show ?thesis using as_float_gamma[of 4 "3 / 10" 1] by simp
  qed
  have ka: "arg_k ?a = 4" by simp
  have g': "as_float (calc_shock_lorentz_gamma (s_ell s) (s_t s) (arg_k ?a)) = Ok ?g"
    using g by (simp only: st sl ka)
  note d = init_OkD[OF i]
  have "update_fluid ?a e s = Raise ZeroDivisionError"
    by (rule update_fluid_k4[OF g' d(7) ka])
  then have "step ?a e s = Fails ZeroDivisionError s" by (simp add: step_def)
  then have m: "main 1 ?a = Raised ZeroDivisionError s" using i lt by (simp add: main_def)
  obtain h where h: "as_float (calc_shock_lorentz_gamma 1 (3 / 10) 4) = Ok h"
    and hsq: "h ^ 2 = (17 - 4 * 4) / (8 * pi) * (1 / (3 / 10)) ^ 3"
    using gamma_sq[of 4 "3 / 10" 1] by auto
  have "?g = h" using g h by simp
  then have "?g ^ 2 = 1 / (8 * pi) * (1000 / 27)" using hsq by (simp add: power3_eq_cube)
  also have "\<dots> \<le> 1 / 24 * (1000 / 27)"
    using eighth_pi_bounds(2) by (intro mult_right_mono) simp_all
  finally have small: "?g ^ 2 / 2 < 1" by simp
  show ?thesis using m g small by simp
qed

text \<open>
  C6, an instance: the first pass of the default run, at the innermost grid point.
\<close>

theorem shocked_point_never_reverts_witness:
  "\<exists>s'. passes 1 default_args (default_env 4096) (default_state 4096) = Some s' \<and>
     arrays_fit (default_env 4096) (default_state 4096) \<and>
     (0 :: nat) < length (env_r (default_env 4096)) \<and>
     (same_values (default_state 4096) s' 0 \<or> shocked_values default_args s' 0) \<and>
     (shocked_values default_args (default_state 4096) 0 \<longrightarrow> shocked_values default_args s' 0)"
proof -
  let ?n = "4096 :: nat"
  have n: "32 \<le> ?n" by simp
  have ri: "run_inv ?n (?n - 1) (default_state ?n)" by (intro run_inv_default_state) simp_all
  have lt: "s_t (default_state ?n) < default_tphysical" using tphysical_bounds(1) by simp
  obtain s' where st: "step (zones_args (int ?n)) (default_env ?n) (default_state ?n) = Next s'"
    using default_step_big[OF n ri lt] by blast
  then have st': "step default_args (default_env 4096) (default_state 4096) = Next s'"
    by (simp add: default_args_zones)
  have p: "passes 1 default_args (default_env 4096) (default_state 4096) = Some s'"
    using st' lt by simp
  have fit: "arrays_fit (default_env 4096) (default_state 4096)"
    by (simp add: arrays_fit_def default_state_def)
  have i: "(0 :: nat) < length (env_r (default_env 4096))" by simp
  show ?thesis
    using shocked_point_never_reverts[OF p fit i] p fit i by blast
qed

text \<open>
  C10, an instance: the default arguments.
\<close>

theorem first_pass_writes_checkpoint_zero_witness:
  "init default_args = Ok (default_env 4096, default_state 4096) \<and>
   0 \<le> arg_t0 default_args \<and> arg_t0 default_args < env_tphysical (default_env 4096) \<and>
   arg_k default_args \<noteq> 4 \<and> arg_tinterval default_args \<noteq> 0 \<and>
   (\<exists>s1 chi g c.
           update_fluid default_args (default_env 4096) (default_state 4096) = Ok (s1, chi, g) \<and>
           s_files (write_checkpoint default_args s1) = [c] \<and> chk_index c = 0 \<and>
           chk_current_time c = arg_t0 default_args \<and>
           s_interval (write_checkpoint default_args s1) = arg_tinterval default_args \<and>
           s_i (write_checkpoint default_args s1) = 1 \<and>
           main (Suc 0) default_args =
             (case advance default_args (default_env 4096) (write_checkpoint default_args s1) chi g of
                Next s' \<Rightarrow> evolve 0 default_args (default_env 4096) s'
              | Fails err s' \<Rightarrow> Raised err s'
              | Leaves \<Rightarrow> NotModelled) \<and>
           (main (Suc 0) default_args = NotModelled \<or> main (Suc 0) default_args = OutOfFuel \<or>
            take 1 (files_written (main (Suc 0) default_args)) = [c]))"
proof -
  have i: "init default_args = Ok (default_env 4096, default_state 4096)"
    using init_zones[of 4096] by (simp add: default_args_zones)
  have t: "0 \<le> arg_t0 default_args" and k: "arg_k default_args \<noteq> 4"
    by (simp_all add: default_args_def)
  have lt: "arg_t0 default_args < env_tphysical (default_env 4096)"
    using tphysical_bounds(1) by (simp add: default_args_def)
  show ?thesis
    using first_pass_writes_checkpoint_zero[OF i t lt k, of 0] i t lt k by blast
qed

lemma k4_init:
  "\<exists>e s. init (default_args\<lparr>arg_k := 4\<rparr>) = Ok (e, s) \<and> s_t s < env_tphysical e"
proof -
  have ab: "default_args\<lparr>arg_k := 4, arg_t0 := 1 / 100\<rparr> = default_args\<lparr>arg_k := 4\<rparr>"
    by (simp add: default_args_def)
  have "pi * (1 / 100) ^ 3 \<le> 16 / 5 * (1 / 100) ^ 3"
    using pi_le_16_5 by (intro mult_right_mono) simp_all
  then have big: "pi * (1 / 100) ^ 3 < 17 - 4 * 4" by (simp add: power3_eq_cube)
  obtain e s where i: "init (default_args\<lparr>arg_k := 4\<rparr>) = Ok (e, s)" and st: "s_t s = 1 / 100"
    and tp: "env_tphysical e = ((17 - 4 * 4) / (8 * pi)) powr (1 / 3)"
    using init_variant[of 4 "1 / 100", OF _ _ big] unfolding ab by auto
  have "(1 / 10 :: real) ^ 3 \<le> 5 / 128" by (simp add: power3_eq_cube)
  then have "(1 / 10 :: real) ^ 3 \<le> 1 / (8 * pi)" using eighth_pi_bounds(1) by linarith
  then have "1 / 10 \<le> (1 / (8 * pi)) powr (1 / 3)" by (intro cube_root_bounds(1)) simp_all
  then have "s_t s < env_tphysical e" by (simp add: st tp)
  then show ?thesis using i by blast
qed

text \<open>
  C10, as the specification states it: a checkpoint with index 0 is always written in
  the first pass, for any \<open>t0 \<ge> 0\<close> and any \<open>tinterval\<close>. With \<open>k = 4\<close> the first pass
  raises ZeroDivisionError in \<open>calc_rho\<close>, before the checkpoint block, and no file is
  written; with \<open>tinterval = 0\<close> line 110 raises ZeroDivisionError before the loop; with
  \<open>t0 = 9/10\<close>, which is above \<open>tphysical\<close>, the loop makes no pass and the run ends
  without a file.
\<close>

theorem first_pass_can_miss_checkpoint:
  "loop_raised (main 1 (default_args\<lparr>arg_k := 4\<rparr>)) = Some ZeroDivisionError \<and>
   files_written (main 1 (default_args\<lparr>arg_k := 4\<rparr>)) = [] \<and>
   init_raised (main 1 (default_args\<lparr>arg_tinterval := 0\<rparr>)) = Some ZeroDivisionError \<and>
   ended_normally (main 1 (default_args\<lparr>arg_t0 := 9 / 10\<rparr>)) \<and>
   files_written (main 1 (default_args\<lparr>arg_t0 := 9 / 10\<rparr>)) = []"
proof -
  let ?a = "default_args\<lparr>arg_k := 4\<rparr>"
  obtain e s where i: "init ?a = Ok (e, s)" and lt: "s_t s < env_tphysical e"
    using k4_init by blast
  note d = init_OkD[OF i]
  from d(6) obtain g where g: "as_float (calc_shock_lorentz_gamma (s_ell s) (s_t s) (arg_k ?a)) = Ok g" ..
  have "update_fluid ?a e s = Raise ZeroDivisionError"
    by (rule update_fluid_k4[OF g d(7)]) simp
  then have "step ?a e s = Fails ZeroDivisionError s" by (simp add: step_def)
  then have m: "main 1 ?a = Raised ZeroDivisionError s" using i lt by (simp add: main_def)
  have "init (default_args\<lparr>arg_tinterval := 0\<rparr>) = Raise ZeroDivisionError"
    using init_default_like[of "default_args\<lparr>arg_tinterval := 0\<rparr>" 4096]
    by (simp add: default_args_def)
  then have m0: "main 1 (default_args\<lparr>arg_tinterval := 0\<rparr>) = InitRaised ZeroDivisionError"
    by (simp add: main_def)
  let ?b = "default_args\<lparr>arg_t0 := 9 / 10\<rparr>"
  have ab: "default_args\<lparr>arg_k := 0, arg_t0 := 9 / 10\<rparr> = ?b" by (simp add: default_args_def)
  have "pi * (9 / 10) ^ 3 \<le> 16 / 5 * (9 / 10) ^ 3" using pi_le_16_5 by (intro mult_right_mono) simp_all
  then have big: "pi * (9 / 10) ^ 3 < 17 - 4 * 0" by (simp add: power3_eq_cube)
  obtain e' s' where i': "init ?b = Ok (e', s')" and st: "s_t s' = 9 / 10"
    and tp: "env_tphysical e' = ((17 - 4 * 0) / (8 * pi)) powr (1 / 3)"
    using init_variant[of 0 "9 / 10", OF _ _ big] unfolding ab by auto
  have "env_tphysical e' = default_tphysical" using tp by (simp add: default_tphysical_def)
  then have ge: "\<not> s_t s' < env_tphysical e'" using tphysical_bounds(2) st by simp
  have m9: "main 1 ?b = Finished s'" using i' ge by (simp add: main_def)
  have f9: "s_files s' = []" by (rule init_OkD(4)[OF i'])
  show ?thesis using m m0 d(4) m9 f9 by simp
qed

end
